theory Spec2Isabelle
  imports Main
begin

section \<open>Values of the configuration checker\<close>

text \<open>
  The checker of \<^verbatim>\<open>src/main.py\<close> works on the values that \<^verbatim>\<open>json.load\<close> and
  \<^verbatim>\<open>yaml.safe_load\<close> build: \<^verbatim>\<open>None\<close>, booleans, integers, floats, strings, lists and
  dictionaries. A dictionary is kept as the list of its items in insertion order, which is
  the order \<^verbatim>\<open>data.items()\<close> iterates in. A key of a dictionary is a string in every
  JSON document; in a YAML document it can also be an integer, a boolean, \<^verbatim>\<open>None\<close> or a
  float. The dates and byte strings that YAML can also build are outside these types, and
  so are cyclic values built from YAML aliases (a datatype value is a finite tree).
  A float is kept as a mantissa and a binary exponent, or as one of the special values: it
  is only tested for being zero and compared for equality here. How Python prints a float
  is not computed; a float that is a key carries the text \<^verbatim>\<open>str\<close> gives for it.
\<close>

datatype pyfloat = Finite int int | Infinity bool | NaN

datatype pykey =
    KStr string
  | KInt int
  | KBool bool
  | KNone
  | KFloat pyfloat string

datatype pyval =
    PNone
  | PBool bool
  | PInt int
  | PFloat pyfloat
  | PStr string
  | PList "pyval list"
  | PDict "(pykey \<times> pyval) list"

datatype py_error = TypeError | KeyError | IndexError

text \<open>
  One entry of the list the matcher returns: the dictionary literal of lines 95-99. The
  feature is the key object; the path is a string, or the key object itself for a key met
  while the path is falsy (line 93).
\<close>

record finding =
  feature :: pykey
  path :: pykey
  deprecation_info :: pyval

type_synonym result = "py_error + finding list"

subsection \<open>Python operators used by the matcher\<close>

text \<open>\<^verbatim>\<open>bool(v)\<close>, which \<^verbatim>\<open>not v\<close> and \<^verbatim>\<open>if v\<close> test.\<close>

fun truthy :: "pyval \<Rightarrow> bool" where
  "truthy PNone = False"
| "truthy (PBool b) = b"
| "truthy (PInt i) = (i \<noteq> 0)"
| "truthy (PFloat (Finite m e)) = (m \<noteq> 0)"
| "truthy (PFloat (Infinity s)) = True"
| "truthy (PFloat NaN) = True"
| "truthy (PStr s) = (s \<noteq> [])"
| "truthy (PList xs) = (xs \<noteq> [])"
| "truthy (PDict kvs) = (kvs \<noteq> [])"

text \<open>\<^verbatim>\<open>bool(k)\<close> for a key object.\<close>

fun key_truthy :: "pykey \<Rightarrow> bool" where
  "key_truthy (KStr s) = (s \<noteq> [])"
| "key_truthy (KInt i) = (i \<noteq> 0)"
| "key_truthy (KBool b) = b"
| "key_truthy KNone = False"
| "key_truthy (KFloat (Finite m e) text) = (m \<noteq> 0)"
| "key_truthy (KFloat (Infinity s) text) = True"
| "key_truthy (KFloat NaN text) = True"

text \<open>
  \<^verbatim>\<open>==\<close> on two floats, as values: \<open>Finite m e\<close> is \<open>m\<close> times two to the \<open>e\<close>; an infinity
  equals the infinity of its sign only; \<^verbatim>\<open>nan\<close> equals nothing.
\<close>

fun float_eq :: "pyfloat \<Rightarrow> pyfloat \<Rightarrow> bool" where
  "float_eq (Finite m e) (Finite m' e') =
     (m * 2 ^ nat (e - min e e') = m' * 2 ^ nat (e' - min e e'))"
| "float_eq (Infinity s) (Infinity s') = (s = s')"
| "float_eq f g = False"

text \<open>The number a key is, if it is one: a boolean is the integer 0 or 1.\<close>

fun key_number :: "pykey \<Rightarrow> pyfloat option" where
  "key_number (KInt i) = Some (Finite i 0)"
| "key_number (KBool b) = Some (Finite (if b then 1 else 0) 0)"
| "key_number (KFloat f text) = Some f"
| "key_number k = None"

text \<open>
  \<^verbatim>\<open>==\<close> on two key objects: strings are equal to equal strings, \<^verbatim>\<open>None\<close> to \<^verbatim>\<open>None\<close>, and
  integers, booleans and floats to the numbers of the same value.
\<close>

fun key_eq :: "pykey \<Rightarrow> pykey \<Rightarrow> bool" where
  "key_eq (KStr a) (KStr b) = (a = b)"
| "key_eq (KStr a) k = False"
| "key_eq KNone KNone = True"
| "key_eq KNone k = False"
| "key_eq j k =
     (case (key_number j, key_number k) of
        (Some x, Some y) \<Rightarrow> float_eq x y
      | _ \<Rightarrow> False)"

text \<open>The key object a scalar value is equal to; a list or a dictionary equals no key.\<close>

fun as_key :: "pyval \<Rightarrow> pykey option" where
  "as_key PNone = Some KNone"
| "as_key (PBool b) = Some (KBool b)"
| "as_key (PInt i) = Some (KInt i)"
| "as_key (PFloat f) = Some (KFloat f [])"
| "as_key (PStr s) = Some (KStr s)"
| "as_key (PList xs) = None"
| "as_key (PDict kvs) = None"

text \<open>\<^verbatim>\<open>key == v\<close> for a key object and a value.\<close>

definition py_eq :: "pykey \<Rightarrow> pyval \<Rightarrow> bool" where
  "py_eq key v = (case as_key v of None \<Rightarrow> False | Some k \<Rightarrow> key_eq key k)"

text \<open>\<^verbatim>\<open>sub in s\<close> on two strings: \<^verbatim>\<open>sub\<close> occurs in \<^verbatim>\<open>s\<close> as a contiguous run.\<close>

fun str_contains :: "string \<Rightarrow> string \<Rightarrow> bool" where
  "str_contains [] sub = (sub = [])"
| "str_contains (c # s) sub = (take (length sub) (c # s) = sub \<or> str_contains s sub)"

text \<open>The value stored in a dictionary under a key equal to the given one.\<close>

fun dict_get :: "(pykey \<times> pyval) list \<Rightarrow> pykey \<Rightarrow> pyval option" where
  "dict_get [] key = None"
| "dict_get ((k, v) # rest) key = (if key_eq key k then Some v else dict_get rest key)"

text \<open>
  \<^verbatim>\<open>key in d\<close>: a key equal to \<^verbatim>\<open>key\<close> on a dictionary, an item equal to \<^verbatim>\<open>key\<close> on a list,
  substring search on a string, where a left operand that is not a string is a
  \<^verbatim>\<open>TypeError\<close>, and \<^verbatim>\<open>TypeError: argument of type ... is not iterable\<close> on everything else.
\<close>

fun py_in :: "pykey \<Rightarrow> pyval \<Rightarrow> py_error + bool" where
  "py_in key (PDict kvs) = Inr (list_ex (key_eq key) (map fst kvs))"
| "py_in key (PList xs) = Inr (list_ex (py_eq key) xs)"
| "py_in (KStr sub) (PStr s) = Inr (str_contains s sub)"
| "py_in key (PStr s) = Inl TypeError"
| "py_in key PNone = Inl TypeError"
| "py_in key (PBool b) = Inl TypeError"
| "py_in key (PInt i) = Inl TypeError"
| "py_in key (PFloat f) = Inl TypeError"

text \<open>
  The index a key is when it subscripts a list or a string: an integer or a boolean, a
  negative one counting from the end. \<open>Inl IndexError\<close> when it is out of range,
  \<open>Inl TypeError\<close> when the key is not an integer.
\<close>

fun seq_index :: "nat \<Rightarrow> pykey \<Rightarrow> py_error + nat" where
  "seq_index n (KInt i) =
     (let j = (if i < 0 then i + int n else i)
      in if 0 \<le> j \<and> j < int n then Inr (nat j) else Inl IndexError)"
| "seq_index n (KBool b) = (if (if b then 1 else 0) < n then Inr (if b then 1 else 0) else Inl IndexError)"
| "seq_index n k = Inl TypeError"

text \<open>
  \<^verbatim>\<open>d[key]\<close>: the stored value or \<^verbatim>\<open>KeyError\<close> on a dictionary; the item or the character at
  the index on a list or a string; \<^verbatim>\<open>TypeError\<close> on the values that are not subscriptable.
\<close>

fun py_getitem :: "pyval \<Rightarrow> pykey \<Rightarrow> py_error + pyval" where
  "py_getitem (PDict kvs) key =
     (case dict_get kvs key of None \<Rightarrow> Inl KeyError | Some v \<Rightarrow> Inr v)"
| "py_getitem (PList xs) key =
     (case seq_index (length xs) key of Inl e \<Rightarrow> Inl e | Inr j \<Rightarrow> Inr (xs ! j))"
| "py_getitem (PStr s) key =
     (case seq_index (length s) key of Inl e \<Rightarrow> Inl e | Inr j \<Rightarrow> Inr (PStr [s ! j]))"
| "py_getitem PNone key = Inl TypeError"
| "py_getitem (PBool b) key = Inl TypeError"
| "py_getitem (PInt i) key = Inl TypeError"
| "py_getitem (PFloat f) key = Inl TypeError"

text \<open>\<^verbatim>\<open>str(i)\<close> of a list index, as the f-string of line 103 formats it: decimal digits.\<close>

definition digit :: "nat \<Rightarrow> char" where
  "digit d = ''0123456789'' ! (d mod 10)"

function str_of_nat :: "nat \<Rightarrow> string" where
  "str_of_nat n = (if n < 10 then [digit n] else str_of_nat (n div 10) @ [digit (n mod 10)])"
  by pat_completeness auto
termination
  by (relation "measure (\<lambda>n. n)") auto

declare str_of_nat.simps [simp del]

text \<open>
  The text an f-string puts for a key object or a path: a string as it is, an integer in
  decimal with its sign, \<^verbatim>\<open>True\<close>, \<^verbatim>\<open>False\<close>, \<^verbatim>\<open>None\<close>, and for a float the text it carries.
\<close>

definition str_of_int :: "int \<Rightarrow> string" where
  "str_of_int i = (if i < 0 then ''-'' @ str_of_nat (nat (- i)) else str_of_nat (nat i))"

fun py_str :: "pykey \<Rightarrow> string" where
  "py_str (KStr s) = s"
| "py_str (KInt i) = str_of_int i"
| "py_str (KBool b) = (if b then ''True'' else ''False'')"
| "py_str KNone = ''None''"
| "py_str (KFloat f text) = text"

section \<open>The matcher\<close>

text \<open>
  \<^verbatim>\<open>find_deprecated_features\<close> (lines 78-106). The first argument is
  \<^verbatim>\<open>self.deprecated_features\<close>, whatever \<^verbatim>\<open>json.load\<close> returned for the table file. The two
  \<^verbatim>\<open>for\<close> loops are the two loop functions; their last argument is the local list
  \<^verbatim>\<open>deprecated_found\<close>, which \<^verbatim>\<open>append\<close> and \<^verbatim>\<open>extend\<close> grow at its end. An exception raised
  by \<^verbatim>\<open>in\<close>, by the subscript or by a recursive call leaves the loop at once. The path
  argument is the empty string at the call of \<^verbatim>\<open>run\<close>; line 93 tests it with \<^verbatim>\<open>if path\<close> and
  makes the key object itself the new path when that test fails.
\<close>

fun find_deprecated_features :: "pyval \<Rightarrow> pyval \<Rightarrow> pykey \<Rightarrow> result"
  and dict_loop :: "pyval \<Rightarrow> (pykey \<times> pyval) list \<Rightarrow> pykey \<Rightarrow> finding list \<Rightarrow> result"
  and list_loop :: "pyval \<Rightarrow> pyval list \<Rightarrow> nat \<Rightarrow> pykey \<Rightarrow> finding list \<Rightarrow> result"
where
  "find_deprecated_features D (PDict kvs) pth = dict_loop D kvs pth []"
| "find_deprecated_features D (PList xs) pth = list_loop D xs 0 pth []"
| "find_deprecated_features D PNone pth = Inr []"
| "find_deprecated_features D (PBool b) pth = Inr []"
| "find_deprecated_features D (PInt i) pth = Inr []"
| "find_deprecated_features D (PFloat f) pth = Inr []"
| "find_deprecated_features D (PStr s) pth = Inr []"
| "dict_loop D [] pth deprecated_found = Inr deprecated_found"
| "dict_loop D ((key, val) # rest) pth deprecated_found =
     (let new_path = (if key_truthy pth then KStr (py_str pth @ ''.'' @ py_str key) else key) in
      case py_in key D of
        Inl e \<Rightarrow> Inl e
      | Inr False \<Rightarrow>
          (case find_deprecated_features D val new_path of
             Inl e \<Rightarrow> Inl e
           | Inr sub \<Rightarrow> dict_loop D rest pth (deprecated_found @ sub))
      | Inr True \<Rightarrow>
          (case py_getitem D key of
             Inl e \<Rightarrow> Inl e
           | Inr info \<Rightarrow>
               (case find_deprecated_features D val new_path of
                  Inl e \<Rightarrow> Inl e
                | Inr sub \<Rightarrow>
                    dict_loop D rest pth
                      (deprecated_found
                         @ [\<lparr>feature = key, path = new_path, deprecation_info = info\<rparr>]
                         @ sub))))"
| "list_loop D [] i pth deprecated_found = Inr deprecated_found"
| "list_loop D (item # rest) i pth deprecated_found =
     (let new_path = KStr (py_str pth @ ''['' @ str_of_nat i @ '']'') in
      case find_deprecated_features D item new_path of
        Inl e \<Rightarrow> Inl e
      | Inr sub \<Rightarrow> list_loop D rest (Suc i) pth (deprecated_found @ sub))"

section \<open>Loading, running and exiting\<close>

text \<open>
  What the program sees of its environment: for each path, whether a file is there and,
  if so, whether \<^verbatim>\<open>open\<close> and the read succeed and with which text; and the two parsers,
  which are libraries outside the repository. A parser returns \<open>None\<close> where the library
  raises an exception.
\<close>

datatype fentry = Unreadable | Content string

record world =
  files :: "string \<Rightarrow> fentry option"
  yaml_safe_load :: "string \<Rightarrow> pyval option"
  json_load :: "string \<Rightarrow> pyval option"

text \<open>\<^verbatim>\<open>os.path.exists\<close>.\<close>

definition path_exists :: "world \<Rightarrow> string \<Rightarrow> bool" where
  "path_exists w p = (files w p \<noteq> None)"

text \<open>
  What a run leaves behind, in order: one event per \<^verbatim>\<open>logging\<close> call, named after its
  level and message, and a \<open>Call\<close> mark wherever one of the three worker methods is entered.
\<close>

datatype callee = LoadTable | LoadConfig | Matcher

datatype event =
    Call callee
  | ErrConfigNotFound string
  | ErrUnsupportedType string
  | ErrLoadingConfig
  | ErrTableNotFound string
  | ErrLoadingTable
  | ErrFailedToLoad
  | WarnHeader
  | WarnFeature pykey
  | WarnPath pykey
  | WarnDetails pyval
  | WarnSeparator
  | InfoNoneFound

text \<open>The events written by \<^verbatim>\<open>logging.error\<close>.\<close>

fun is_error :: "event \<Rightarrow> bool" where
  "is_error (ErrConfigNotFound p) = True"
| "is_error (ErrUnsupportedType t) = True"
| "is_error ErrLoadingConfig = True"
| "is_error (ErrTableNotFound p) = True"
| "is_error ErrLoadingTable = True"
| "is_error ErrFailedToLoad = True"
| "is_error e = False"

text \<open>The object, with the five attributes \<^verbatim>\<open>__init__\<close> assigns (lines 27-31).\<close>

record deprecator =
  config_file :: string
  config_type :: string
  deprecated_features_file :: string
  deprecated_features :: pyval
  config_data :: pyval

text \<open>
  \<^verbatim>\<open>str.lower\<close> on the ASCII letters; the other characters stay. No character outside ASCII
  lowers to a letter of \<^verbatim>\<open>yaml\<close> or \<^verbatim>\<open>json\<close>, the only strings the result is compared with.
\<close>

definition lower_char :: "char \<Rightarrow> char" where
  "lower_char c =
     (case map_of (zip ''ABCDEFGHIJKLMNOPQRSTUVWXYZ'' ''abcdefghijklmnopqrstuvwxyz'') c of
        None \<Rightarrow> c
      | Some l \<Rightarrow> l)"

definition lower :: "string \<Rightarrow> string" where
  "lower s = map lower_char s"

text \<open>
  \<^verbatim>\<open>load_config_data\<close> (lines 34-57). \<^verbatim>\<open>None\<close> is returned on every failure; it is also what
  a document whose content is \<^verbatim>\<open>null\<close> parses to. The \<^verbatim>\<open>try\<close> block encloses \<^verbatim>\<open>open\<close>, so a
  file that cannot be opened ends in the \<^verbatim>\<open>except\<close> branch, before the type is looked at.
\<close>

definition load_config_data :: "world \<Rightarrow> deprecator \<Rightarrow> pyval \<times> event list" where
  "load_config_data w self =
     (case files w (config_file self) of
        None \<Rightarrow> (PNone, [Call LoadConfig, ErrConfigNotFound (config_file self)])
      | Some Unreadable \<Rightarrow> (PNone, [Call LoadConfig, ErrLoadingConfig])
      | Some (Content text) \<Rightarrow>
          if config_type self = ''yaml'' then
            (case yaml_safe_load w text of
               None \<Rightarrow> (PNone, [Call LoadConfig, ErrLoadingConfig])
             | Some v \<Rightarrow> (v, [Call LoadConfig]))
          else if config_type self = ''json'' then
            (case json_load w text of
               None \<Rightarrow> (PNone, [Call LoadConfig, ErrLoadingConfig])
             | Some v \<Rightarrow> (v, [Call LoadConfig]))
          else (PNone, [Call LoadConfig, ErrUnsupportedType (config_type self)]))"

text \<open>\<^verbatim>\<open>load_deprecated_features\<close> (lines 60-77).\<close>

definition load_deprecated_features :: "world \<Rightarrow> deprecator \<Rightarrow> pyval \<times> event list" where
  "load_deprecated_features w self =
     (case files w (deprecated_features_file self) of
        None \<Rightarrow> (PNone, [Call LoadTable, ErrTableNotFound (deprecated_features_file self)])
      | Some Unreadable \<Rightarrow> (PNone, [Call LoadTable, ErrLoadingTable])
      | Some (Content text) \<Rightarrow>
          (case json_load w text of
             None \<Rightarrow> (PNone, [Call LoadTable, ErrLoadingTable])
           | Some v \<Rightarrow> (v, [Call LoadTable])))"

text \<open>
  \<^verbatim>\<open>__init__\<close> (lines 18-31): the table is loaded first, then the configuration. The two
  data attributes hold \<open>PNone\<close> until they are assigned; neither loader reads them.
\<close>

definition init :: "world \<Rightarrow> string \<Rightarrow> string \<Rightarrow> string \<Rightarrow> deprecator \<times> event list" where
  "init w cfile ctype dfile =
     (let self0 = \<lparr>config_file = cfile, config_type = lower ctype,
                   deprecated_features_file = dfile,
                   deprecated_features = PNone, config_data = PNone\<rparr>;
          (table, log1) = load_deprecated_features w self0;
          self1 = self0\<lparr>deprecated_features := table\<rparr>;
          (data, log2) = load_config_data w self1;
          self2 = self1\<lparr>config_data := data\<rparr>
      in (self2, log1 @ log2))"

text \<open>The four warning lines of lines 121-124 for one entry.\<close>

definition report_block :: "finding \<Rightarrow> event list" where
  "report_block f =
     [WarnFeature (feature f), WarnPath (path f), WarnDetails (deprecation_info f),
      WarnSeparator]"

text \<open>
  \<^verbatim>\<open>run\<close> (lines 108-128). An exception of the matcher is not caught here, so it is the
  result of \<^verbatim>\<open>run\<close> too.
\<close>

definition run :: "deprecator \<Rightarrow> result \<times> event list" where
  "run self =
     (if \<not> truthy (config_data self) \<or> \<not> truthy (deprecated_features self) then
        (Inr [], [ErrFailedToLoad])
      else
        (case find_deprecated_features (deprecated_features self) (config_data self) (KStr []) of
           Inl e \<Rightarrow> (Inl e, [Call Matcher])
         | Inr deprecated_features_found \<Rightarrow>
             (Inr deprecated_features_found,
              Call Matcher #
                (if deprecated_features_found \<noteq> [] then
                   WarnHeader # concat (map report_block deprecated_features_found)
                 else [InfoNoneFound]))))"

text \<open>The command line after \<^verbatim>\<open>parse_args\<close> has accepted it.\<close>

record args =
  arg_config_file :: string
  arg_config_type :: string
  arg_deprecated_features_file :: string

text \<open>
  \<^verbatim>\<open>main\<close> from line 151 on: \<open>Inr n\<close> is \<^verbatim>\<open>sys.exit(n)\<close>, \<open>Inl e\<close> is the exception \<open>e\<close>
  leaving \<^verbatim>\<open>main\<close> uncaught.
\<close>

definition main :: "world \<Rightarrow> args \<Rightarrow> (py_error + nat) \<times> event list" where
  "main w a =
     (if \<not> path_exists w (arg_config_file a) then
        (Inr 1, [ErrConfigNotFound (arg_config_file a)])
      else if \<not> path_exists w (arg_deprecated_features_file a) then
        (Inr 1, [ErrTableNotFound (arg_deprecated_features_file a)])
      else
        (let (deprecator, log1) =
               init w (arg_config_file a) (arg_config_type a) (arg_deprecated_features_file a);
             (deprecated_features, log2) = run deprecator
         in case deprecated_features of
              Inl e \<Rightarrow> (Inl e, log1 @ log2)
            | Inr found \<Rightarrow> (Inr (if found \<noteq> [] then 2 else 0), log1 @ log2)))"

section \<open>The matcher as the specification describes it\<close>

text \<open>
  The table as the specification has it, a mapping from feature name to metadata, and the
  walk of its section 4.3: a mapping entry contributes its own entry, if its key is in the
  table, then what its value contributes; a sequence contributes what its items contribute;
  a scalar contributes nothing. The path of a child is formed here as the matcher forms
  it, by \<open>childPath\<close> and \<open>indexPath\<close>; the rule the specification words for string
  paths is \<open>specChildPath\<close> further down.
\<close>

fun is_mapping :: "pyval \<Rightarrow> bool" where
  "is_mapping (PDict kvs) = True"
| "is_mapping v = False"

fun table_of :: "pyval \<Rightarrow> pykey \<Rightarrow> pyval option" where
  "table_of (PDict kvs) = dict_get kvs"
| "table_of v = (\<lambda>k. None)"

definition childPath :: "pykey \<Rightarrow> pykey \<Rightarrow> pykey" where
  "childPath pth key = (if key_truthy pth then KStr (py_str pth @ ''.'' @ py_str key) else key)"

definition indexPath :: "pykey \<Rightarrow> nat \<Rightarrow> pykey" where
  "indexPath pth i = KStr (py_str pth @ ''['' @ str_of_nat i @ '']'')"

fun findDeprecated :: "(pykey \<Rightarrow> pyval option) \<Rightarrow> pyval \<Rightarrow> pykey \<Rightarrow> finding list"
  and findEntries :: "(pykey \<Rightarrow> pyval option) \<Rightarrow> (pykey \<times> pyval) list \<Rightarrow> pykey \<Rightarrow> finding list"
  and findItems :: "(pykey \<Rightarrow> pyval option) \<Rightarrow> pyval list \<Rightarrow> nat \<Rightarrow> pykey \<Rightarrow> finding list"
where
  "findDeprecated tbl (PDict kvs) pth = findEntries tbl kvs pth"
| "findDeprecated tbl (PList xs) pth = findItems tbl xs 0 pth"
| "findDeprecated tbl PNone pth = []"
| "findDeprecated tbl (PBool b) pth = []"
| "findDeprecated tbl (PInt i) pth = []"
| "findDeprecated tbl (PFloat f) pth = []"
| "findDeprecated tbl (PStr s) pth = []"
| "findEntries tbl [] pth = []"
| "findEntries tbl ((key, val) # rest) pth =
     (case tbl key of
        None \<Rightarrow> []
      | Some info \<Rightarrow> [\<lparr>feature = key, path = childPath pth key, deprecation_info = info\<rparr>])
     @ findDeprecated tbl val (childPath pth key)
     @ findEntries tbl rest pth"
| "findItems tbl [] i pth = []"
| "findItems tbl (item # rest) i pth =
     findDeprecated tbl item (indexPath pth i) @ findItems tbl rest (Suc i) pth"

subsection \<open>Where the keys of a tree are\<close>

text \<open>
  A position in a tree is the list of descents from the root: into the value of a mapping
  key, or into the item at a sequence index. \<open>key_locations\<close> lists every occurrence of a
  mapping key with the position of that entry, in the order of the walk; it does not look
  at any table. \<open>render_path\<close> writes a position as the path the matcher forms for it, one
  descent after the other from the left.
\<close>

datatype step = Key pykey | Idx nat

fun push :: "step \<Rightarrow> pykey \<times> step list \<Rightarrow> pykey \<times> step list" where
  "push s (k, loc) = (k, s # loc)"

fun key_locations :: "pyval \<Rightarrow> (pykey \<times> step list) list"
  and entry_locations :: "(pykey \<times> pyval) list \<Rightarrow> (pykey \<times> step list) list"
  and item_locations :: "pyval list \<Rightarrow> nat \<Rightarrow> (pykey \<times> step list) list"
where
  "key_locations (PDict kvs) = entry_locations kvs"
| "key_locations (PList xs) = item_locations xs 0"
| "key_locations PNone = []"
| "key_locations (PBool b) = []"
| "key_locations (PInt i) = []"
| "key_locations (PFloat f) = []"
| "key_locations (PStr s) = []"
| "entry_locations [] = []"
| "entry_locations ((key, val) # rest) =
     (key, [Key key]) # map (push (Key key)) (key_locations val) @ entry_locations rest"
| "item_locations [] i = []"
| "item_locations (item # rest) i =
     map (push (Idx i)) (key_locations item) @ item_locations rest (Suc i)"

fun descend :: "pykey \<Rightarrow> step \<Rightarrow> pykey" where
  "descend pth (Key k) = childPath pth k"
| "descend pth (Idx i) = indexPath pth i"

definition render_path :: "pykey \<Rightarrow> step list \<Rightarrow> pykey" where
  "render_path root loc = foldl descend root loc"

text \<open>The entry reported for an occurrence, when the table is a mapping holding the key.\<close>

definition finding_at :: "pyval \<Rightarrow> pykey \<Rightarrow> pykey \<times> step list \<Rightarrow> finding" where
  "finding_at D root occ =
     \<lparr>feature = fst occ, path = render_path root (snd occ),
      deprecation_info = the (table_of D (fst occ))\<rparr>"

definition in_table :: "pyval \<Rightarrow> pykey \<times> step list \<Rightarrow> bool" where
  "in_table D occ = (table_of D (fst occ) \<noteq> None)"

text \<open>
  \<open>key_at T loc k\<close>: the tree \<open>T\<close> has a mapping with the key \<open>k\<close> at the position \<open>loc\<close>,
  whose last descent is the one into that key.
\<close>

inductive key_at :: "pyval \<Rightarrow> step list \<Rightarrow> pykey \<Rightarrow> bool" where
  here: "(k, v) \<in> set kvs \<Longrightarrow> key_at (PDict kvs) [Key k] k"
| under_key: "(k, v) \<in> set kvs \<Longrightarrow> key_at v loc k' \<Longrightarrow> key_at (PDict kvs) (Key k # loc) k'"
| under_index: "i < length xs \<Longrightarrow> key_at (xs ! i) loc k' \<Longrightarrow> key_at (PList xs) (Idx i # loc) k'"

text \<open>A value that is neither a mapping nor a sequence.\<close>

fun is_scalar :: "pyval \<Rightarrow> bool" where
  "is_scalar (PDict kvs) = False"
| "is_scalar (PList xs) = False"
| "is_scalar v = True"

subsection \<open>The matcher, statement by statement\<close>

text \<open>
  The executions of lines 89-106 as a relation between a call and its outcome, one rule
  per way through the body: the two loops with the list built so far, an exception ending
  the loop it is raised in. Being a relation, it does not assume that a call has one
  outcome only.
\<close>

fun is_sequence :: "pyval \<Rightarrow> bool" where
  "is_sequence (PList xs) = True"
| "is_sequence v = False"

inductive walk :: "pyval \<Rightarrow> pyval \<Rightarrow> pykey \<Rightarrow> result \<Rightarrow> bool"
  and walk_dict :: "pyval \<Rightarrow> (pykey \<times> pyval) list \<Rightarrow> pykey \<Rightarrow> finding list \<Rightarrow> result \<Rightarrow> bool"
  and walk_list :: "pyval \<Rightarrow> pyval list \<Rightarrow> nat \<Rightarrow> pykey \<Rightarrow> finding list \<Rightarrow> result \<Rightarrow> bool"
where
  node_dict: "walk_dict D kvs pth [] r \<Longrightarrow> walk D (PDict kvs) pth r"
| node_list: "walk_list D xs 0 pth [] r \<Longrightarrow> walk D (PList xs) pth r"
| node_scalar: "\<not> is_mapping T \<Longrightarrow> \<not> is_sequence T \<Longrightarrow> walk D T pth (Inr [])"
| dict_end: "walk_dict D [] pth found (Inr found)"
| dict_in_raises:
    "py_in key D = Inl e \<Longrightarrow> walk_dict D ((key, val) # rest) pth found (Inl e)"
| dict_getitem_raises:
    "py_in key D = Inr True \<Longrightarrow> py_getitem D key = Inl e
     \<Longrightarrow> walk_dict D ((key, val) # rest) pth found (Inl e)"
| dict_hit_raises:
    "py_in key D = Inr True \<Longrightarrow> py_getitem D key = Inr info
     \<Longrightarrow> walk D val (childPath pth key) (Inl e)
     \<Longrightarrow> walk_dict D ((key, val) # rest) pth found (Inl e)"
| dict_hit:
    "py_in key D = Inr True \<Longrightarrow> py_getitem D key = Inr info
     \<Longrightarrow> walk D val (childPath pth key) (Inr sub)
     \<Longrightarrow> walk_dict D rest pth
           (found @ [\<lparr>feature = key, path = childPath pth key, deprecation_info = info\<rparr>] @ sub) r
     \<Longrightarrow> walk_dict D ((key, val) # rest) pth found r"
| dict_miss_raises:
    "py_in key D = Inr False \<Longrightarrow> walk D val (childPath pth key) (Inl e)
     \<Longrightarrow> walk_dict D ((key, val) # rest) pth found (Inl e)"
| dict_miss:
    "py_in key D = Inr False \<Longrightarrow> walk D val (childPath pth key) (Inr sub)
     \<Longrightarrow> walk_dict D rest pth (found @ sub) r
     \<Longrightarrow> walk_dict D ((key, val) # rest) pth found r"
| list_end: "walk_list D [] i pth found (Inr found)"
| list_item_raises:
    "walk D item (indexPath pth i) (Inl e)
     \<Longrightarrow> walk_list D (item # rest) i pth found (Inl e)"
| list_item:
    "walk D item (indexPath pth i) (Inr sub)
     \<Longrightarrow> walk_list D rest (Suc i) pth (found @ sub) r
     \<Longrightarrow> walk_list D (item # rest) i pth found r"

subsection \<open>Notions used to state the properties\<close>

text \<open>The keys of a tree, one per occurrence, in the order of the walk.\<close>

definition keys_of :: "pyval \<Rightarrow> pykey list" where
  "keys_of T = map fst (key_locations T)"

text \<open>The parser the configuration loader uses for a type it supports.\<close>

definition parse_as :: "world \<Rightarrow> string \<Rightarrow> string \<Rightarrow> pyval option" where
  "parse_as w ctype text = (if ctype = ''yaml'' then yaml_safe_load w text else json_load w text)"

text \<open>The configuration file is there, can be read, and its text does not parse.\<close>

definition parse_fails :: "world \<Rightarrow> deprecator \<Rightarrow> bool" where
  "parse_fails w self =
     (case files w (config_file self) of
        Some (Content text) \<Rightarrow> parse_as w (config_type self) text = None
      | _ \<Rightarrow> False)"

text \<open>The configuration file is there and cannot be opened or read.\<close>

definition unreadable :: "world \<Rightarrow> deprecator \<Rightarrow> bool" where
  "unreadable w self = (files w (config_file self) = Some Unreadable)"

text \<open>The loader reported a failure: it wrote an error to the log.\<close>

definition reports_failure :: "event list \<Rightarrow> bool" where
  "reports_failure log = list_ex is_error log"

text \<open>The matcher was entered.\<close>

definition matcher_invoked :: "event list \<Rightarrow> bool" where
  "matcher_invoked log = (Call Matcher \<in> set log)"

text \<open>One of the two loaders was entered.\<close>

definition load_attempted :: "event list \<Rightarrow> bool" where
  "load_attempted log = (Call LoadTable \<in> set log \<or> Call LoadConfig \<in> set log)"

text \<open>
  The rule of the specification and of claim C4 for the path of a child, on strings: the
  key when the path so far is empty, otherwise the path, a dot and the key; and the path
  followed by the index in brackets for an item of a sequence. \<open>spec_path\<close> renders a
  position with it from the empty path, a key that is not a string as its text.
\<close>

definition specChildPath :: "string \<Rightarrow> string \<Rightarrow> string" where
  "specChildPath pth key = (if pth = [] then key else pth @ ''.'' @ key)"

fun spec_descend :: "string \<Rightarrow> step \<Rightarrow> string" where
  "spec_descend pth (Key k) = specChildPath pth (py_str k)"
| "spec_descend pth (Idx i) = pth @ ''['' @ str_of_nat i @ '']''"

definition spec_path :: "step list \<Rightarrow> string" where
  "spec_path loc = foldl spec_descend [] loc"

text \<open>A tree all of whose mapping keys are strings, as every tree parsed from JSON is.\<close>

fun is_str_key :: "pykey \<Rightarrow> bool" where
  "is_str_key (KStr s) = True"
| "is_str_key k = False"

definition string_keyed :: "pyval \<Rightarrow> bool" where
  "string_keyed T = list_all is_str_key (keys_of T)"

fun is_str_step :: "step \<Rightarrow> bool" where
  "is_str_step (Key k) = is_str_key k"
| "is_str_step (Idx i) = True"

text \<open>A key that can subscript a list: an integer or a boolean.\<close>

fun is_index_key :: "pykey \<Rightarrow> bool" where
  "is_index_key (KInt i) = True"
| "is_index_key (KBool b) = True"
| "is_index_key k = False"

text \<open>The membership test of line 94 is false for every mapping key of the tree.\<close>

definition no_key_matches :: "pyval \<Rightarrow> pyval \<Rightarrow> bool" where
  "no_key_matches D T = list_all (\<lambda>k. py_in k D = Inr False) (keys_of T)"

text \<open>
  An entry that lines 94-99 can have built from the table: the membership test holds for
  its feature and its info is what the subscript gives.
\<close>

definition built_from :: "pyval \<Rightarrow> finding \<Rightarrow> bool" where
  "built_from D f =
     (py_in (feature f) D = Inr True \<and> py_getitem D (feature f) = Inr (deprecation_info f))"

text \<open>The number a string of decimal digits writes.\<close>

definition digit_value :: "char \<Rightarrow> nat" where
  "digit_value c = length (takeWhile (\<lambda>d. d \<noteq> c) ''0123456789'')"

definition nat_of_str :: "string \<Rightarrow> nat" where
  "nat_of_str s = foldl (\<lambda>a c. 10 * a + digit_value c) 0 s"

section \<open>Properties of the matcher\<close>

subsection \<open>The loops, one step at a time\<close>

lemma dict_get_None: "dict_get kvs key = None \<longleftrightarrow> \<not> list_ex (key_eq key) (map fst kvs)"
  by (induction kvs) (auto split: if_splits)

lemma py_in_mapping: "is_mapping D \<Longrightarrow> py_in key D = Inr (table_of D key \<noteq> None)"
  by (cases D) (simp_all add: dict_get_None)

lemma py_getitem_mapping:
  "is_mapping D \<Longrightarrow> table_of D key = Some info \<Longrightarrow> py_getitem D key = Inr info"
  by (cases D) simp_all

lemma new_path_childPath:
  "(if key_truthy pth then KStr (py_str pth @ ''.'' @ py_str key) else key) = childPath pth key"
  by (simp add: childPath_def)

lemma dict_loop_in_raises:
  "py_in key D = Inl e \<Longrightarrow> dict_loop D ((key, val) # rest) pth found = Inl e"
  by (simp only: dict_loop.simps Let_def sum.case)

lemma dict_loop_getitem_raises:
  "py_in key D = Inr True \<Longrightarrow> py_getitem D key = Inl e
   \<Longrightarrow> dict_loop D ((key, val) # rest) pth found = Inl e"
  by (simp only: dict_loop.simps Let_def sum.case bool.case)

lemma dict_loop_hit:
  "py_in key D = Inr True \<Longrightarrow> py_getitem D key = Inr info
   \<Longrightarrow> dict_loop D ((key, val) # rest) pth found =
       (case find_deprecated_features D val (childPath pth key) of
          Inl e \<Rightarrow> Inl e
        | Inr sub \<Rightarrow>
            dict_loop D rest pth
              (found @ [\<lparr>feature = key, path = childPath pth key, deprecation_info = info\<rparr>] @ sub))"
  by (simp only: dict_loop.simps Let_def sum.case bool.case new_path_childPath)

lemma dict_loop_miss:
  "py_in key D = Inr False
   \<Longrightarrow> dict_loop D ((key, val) # rest) pth found =
       (case find_deprecated_features D val (childPath pth key) of
          Inl e \<Rightarrow> Inl e
        | Inr sub \<Rightarrow> dict_loop D rest pth (found @ sub))"
  by (simp only: dict_loop.simps Let_def sum.case bool.case new_path_childPath)

lemma list_loop_Cons:
  "list_loop D (item # rest) i pth found =
     (case find_deprecated_features D item (indexPath pth i) of
        Inl e \<Rightarrow> Inl e
      | Inr sub \<Rightarrow> list_loop D rest (Suc i) pth (found @ sub))"
  by (simp only: list_loop.simps Let_def indexPath_def)

lemmas loop_steps = dict_loop_in_raises dict_loop_getitem_raises dict_loop_hit dict_loop_miss
  list_loop_Cons

declare dict_loop.simps(2) [simp del] list_loop.simps(2) [simp del]

lemma loops_refine:
  assumes D: "is_mapping D"
  shows "find_deprecated_features D T pth = Inr (findDeprecated (table_of D) T pth)"
    and "\<forall>found. dict_loop D kvs pth found = Inr (found @ findEntries (table_of D) kvs pth)"
    and "\<forall>found. list_loop D xs i pth found = Inr (found @ findItems (table_of D) xs i pth)"
proof (induction "table_of D" T pth and "table_of D" kvs pth and "table_of D" xs i pth
      rule: findDeprecated_findEntries_findItems.induct)
  case (9 key val rest pth)
  show ?case
  proof (cases "table_of D key")
    case None
    then have "py_in key D = Inr False" using D by (simp add: py_in_mapping)
    with 9 None show ?thesis by (simp add: dict_loop_miss)
  next
    case (Some info)
    then have "py_in key D = Inr True" "py_getitem D key = Inr info"
      using D by (simp_all add: py_in_mapping py_getitem_mapping)
    with 9 Some show ?thesis by (simp add: dict_loop_hit)
  qed
next
  case (11 item rest i pth)
  then show ?case by (simp add: list_loop_Cons)
qed simp_all

lemma findDeprecated_empty:
  "findDeprecated (\<lambda>k. None) T pth = []"
  "findEntries (\<lambda>k. None) kvs pth = []"
  "findItems (\<lambda>k. None) xs i pth = []"
  by (induction "\<lambda>k::pykey. None :: pyval option" T pth
        and "\<lambda>k::pykey. None :: pyval option" kvs pth
        and "\<lambda>k::pykey. None :: pyval option" xs i pth
      rule: findDeprecated_findEntries_findItems.induct) simp_all

lemma walk_sound:
  "walk D T pth r \<Longrightarrow> find_deprecated_features D T pth = r"
  "walk_dict D kvs pth found r \<Longrightarrow> dict_loop D kvs pth found = r"
  "walk_list D xs i pth found r \<Longrightarrow> list_loop D xs i pth found = r"
proof (induction rule: walk_walk_dict_walk_list.inducts)
  case (node_scalar T D pth)
  then show ?case by (cases T) simp_all
qed (simp_all add: loop_steps)

lemma walk_complete:
  "walk D T pth (find_deprecated_features D T pth)"
  "\<forall>found. walk_dict D kvs pth found (dict_loop D kvs pth found)"
  "\<forall>found. walk_list D xs i pth found (list_loop D xs i pth found)"
proof (induction T and kvs and xs i arbitrary: pth and pth and pth
    rule: key_locations_entry_locations_item_locations.induct)
  case (9 key val rest)
  show ?case
  proof
    fix found
    note w = "9.IH"(1) [of "childPath pth key"]
    note ws = "9.IH"(2) [of pth, rule_format]
    show "walk_dict D ((key, val) # rest) pth found (dict_loop D ((key, val) # rest) pth found)"
    proof (cases "py_in key D")
      case (Inl e)
      then show ?thesis by (simp add: dict_loop_in_raises dict_in_raises)
    next
      case (Inr b)
      show ?thesis
      proof (cases b)
        case True
        from Inr True have pin: "py_in key D = Inr True" by simp
        show ?thesis
        proof (cases "py_getitem D key")
          case (Inl e)
          with pin show ?thesis by (simp add: dict_loop_getitem_raises dict_getitem_raises)
        next
          case get: (Inr info)
          show ?thesis
          proof (cases "find_deprecated_features D val (childPath pth key)")
            case (Inl e)
            with w pin get show ?thesis
              by (simp add: dict_loop_hit dict_hit_raises)
          next
            case sub: (Inr sub)
            with w pin get ws show ?thesis
              by (simp add: dict_loop_hit dict_hit del: append_Cons)
          qed
        qed
      next
        case False
        from Inr False have pin: "py_in key D = Inr False" by simp
        show ?thesis
        proof (cases "find_deprecated_features D val (childPath pth key)")
          case (Inl e)
          with w pin show ?thesis
            by (simp add: dict_loop_miss dict_miss_raises)
        next
          case sub: (Inr sub)
          with w pin ws show ?thesis
            by (simp add: dict_loop_miss dict_miss)
        qed
      qed
    qed
  qed
next
  case (11 item rest i)
  show ?case
  proof
    fix found
    note w = "11.IH"(1) [of "indexPath pth i"]
    note ws = "11.IH"(2) [of pth, rule_format]
    show "walk_list D (item # rest) i pth found (list_loop D (item # rest) i pth found)"
    proof (cases "find_deprecated_features D item (indexPath pth i)")
      case (Inl e)
      with w show ?thesis by (simp add: list_loop_Cons list_item_raises)
    next
      case sub: (Inr sub)
      with w ws show ?thesis by (simp add: list_loop_Cons list_item)
    qed
  qed
qed (auto intro: walk_walk_dict_walk_list.intros)


lemma in_table_push: "in_table D (push s occ) = in_table D occ"
  by (cases occ) (simp add: in_table_def)

lemma finding_at_push: "finding_at D pth (push s occ) = finding_at D (descend pth s) occ"
  by (cases occ) (simp add: finding_at_def render_path_def)

lemma findings_of_pushed:
  "map (finding_at D pth) (filter (in_table D) (map (push s) occs)) =
   map (finding_at D (descend pth s)) (filter (in_table D) occs)"
  by (induction occs) (simp_all add: in_table_push finding_at_push)

lemma finding_at_entry:
  "finding_at D pth (key, [Key key]) =
   \<lparr>feature = key, path = childPath pth key, deprecation_info = the (table_of D key)\<rparr>"
  by (simp add: finding_at_def render_path_def)

lemma findDeprecated_locations:
  "findDeprecated (table_of D) T pth =
     map (finding_at D pth) (filter (in_table D) (key_locations T))"
  "findEntries (table_of D) kvs pth =
     map (finding_at D pth) (filter (in_table D) (entry_locations kvs))"
  "findItems (table_of D) xs i pth =
     map (finding_at D pth) (filter (in_table D) (item_locations xs i))"
proof (induction "table_of D" T pth and "table_of D" kvs pth and "table_of D" xs i pth
      rule: findDeprecated_findEntries_findItems.induct)
  case (9 key val rest pth)
  have own: "(case table_of D key of None \<Rightarrow> []
              | Some info \<Rightarrow> [\<lparr>feature = key, path = childPath pth key, deprecation_info = info\<rparr>]) =
             map (finding_at D pth) (filter (in_table D) [(key, [Key key])])"
    by (cases "table_of D key") (simp_all add: in_table_def finding_at_entry)
  have sub: "findDeprecated (table_of D) val (childPath pth key) =
             map (finding_at D pth) (filter (in_table D) (map (push (Key key)) (key_locations val)))"
    using "9.hyps"(1) by (simp add: findings_of_pushed)
  show ?case
    using "9.hyps"(2) by (simp only: findEntries.simps entry_locations.simps own sub
        filter_append map_append append_Cons [symmetric] append_Nil [symmetric]) simp
next
  case (11 item rest i pth)
  then show ?case by (simp add: findings_of_pushed)
qed simp_all

lemma fst_push: "fst (push s occ) = fst occ"
  by (cases occ) simp

lemma fst_comp_push: "fst \<circ> push s = fst"
  by (rule ext) (simp add: fst_push)

lemma keys_pushed: "map fst (map (push s) occs) = map fst occs"
  by (simp add: fst_comp_push)

lemma no_key_in_table:
  "list_all (\<lambda>k. table_of D k = None) (map fst occs) \<Longrightarrow> filter (in_table D) occs = []"
  by (induction occs) (simp_all add: in_table_def)

subsection \<open>Positions of keys\<close>

inductive_cases key_at_dictE: "key_at (PDict kvs) loc k"
inductive_cases key_at_listE: "key_at (PList xs) loc k"
inductive_cases key_at_NoneE: "key_at PNone loc k"
inductive_cases key_at_BoolE: "key_at (PBool b) loc k"
inductive_cases key_at_IntE: "key_at (PInt i) loc k"
inductive_cases key_at_FloatE: "key_at (PFloat f) loc k"
inductive_cases key_at_StrE: "key_at (PStr s) loc k"

lemma key_at_dict_Nil: "\<not> key_at (PDict []) loc k"
  by (auto elim: key_at_dictE)

lemma key_at_dict_Cons:
  "key_at (PDict ((key, val) # rest)) loc k \<longleftrightarrow>
     (loc = [Key key] \<and> k = key)
     \<or> (\<exists>loc'. loc = Key key # loc' \<and> key_at val loc' k)
     \<or> key_at (PDict rest) loc k"
proof
  assume "key_at (PDict ((key, val) # rest)) loc k"
  then show "(loc = [Key key] \<and> k = key)
     \<or> (\<exists>loc'. loc = Key key # loc' \<and> key_at val loc' k)
     \<or> key_at (PDict rest) loc k"
    by (rule key_at_dictE) (auto intro: key_at.intros)
next
  assume "(loc = [Key key] \<and> k = key)
     \<or> (\<exists>loc'. loc = Key key # loc' \<and> key_at val loc' k)
     \<or> key_at (PDict rest) loc k"
  then consider "loc = [Key key] \<and> k = key"
    | loc' where "loc = Key key # loc'" "key_at val loc' k"
    | "key_at (PDict rest) loc k" by blast
  then show "key_at (PDict ((key, val) # rest)) loc k"
  proof cases
    case 1
    then show ?thesis using here [of key val "(key, val) # rest"] by simp
  next
    case 2
    then show ?thesis using under_key [of key val "(key, val) # rest" loc' k] by simp
  next
    case 3
    then show ?thesis
      by (rule key_at_dictE) (auto intro: key_at.intros)
  qed
qed

lemma key_at_list:
  "key_at (PList xs) loc k \<longleftrightarrow>
     (\<exists>j loc'. j < length xs \<and> loc = Idx j # loc' \<and> key_at (xs ! j) loc' k)"
  by (auto elim: key_at_listE intro: key_at.intros)

lemma key_at_scalar: "is_scalar T \<Longrightarrow> \<not> key_at T loc k"
  by (cases T) (auto elim: key_at_NoneE key_at_BoolE key_at_IntE key_at_FloatE key_at_StrE)

lemma in_pushed:
  "(k, loc) \<in> push s ` set occs \<longleftrightarrow> (\<exists>loc'. loc = s # loc' \<and> (k, loc') \<in> set occs)"
  by (induction occs) auto

lemma key_locations_iff:
  "\<forall>k loc. (k, loc) \<in> set (key_locations T) \<longleftrightarrow> key_at T loc k"
  "\<forall>k loc. (k, loc) \<in> set (entry_locations kvs) \<longleftrightarrow> key_at (PDict kvs) loc k"
  "\<forall>k loc. (k, loc) \<in> set (item_locations xs i) \<longleftrightarrow>
     (\<exists>j loc'. j < length xs \<and> loc = Idx (i + j) # loc' \<and> key_at (xs ! j) loc' k)"
proof (induction T and kvs and xs i rule: key_locations_entry_locations_item_locations.induct)
  case (1 kvs)
  then show ?case by simp
next
  case (2 xs)
  then show ?case by (simp add: key_at_list)
next
  case (8)
  then show ?case by (simp add: key_at_dict_Nil)
next
  case (9 key val rest)
  then show ?case by (auto simp: key_at_dict_Cons in_pushed)
next
  case (10 i)
  then show ?case by simp
next
  case (11 item rest i)
  show ?case
  proof (intro allI iffI)
    fix k loc
    assume "(k, loc) \<in> set (item_locations (item # rest) i)"
    then consider (a) loc' where "loc = Idx i # loc'" "key_at item loc' k"
      | (b) j loc' where "j < length rest" "loc = Idx (Suc i + j) # loc'" "key_at (rest ! j) loc' k"
      using 11 by (auto simp: in_pushed)
    then show "\<exists>j loc'. j < length (item # rest) \<and> loc = Idx (i + j) # loc'
                 \<and> key_at ((item # rest) ! j) loc' k"
    proof cases
      case a
      then show ?thesis by (intro exI [of _ 0] exI [of _ loc']) simp
    next
      case b
      then show ?thesis by (intro exI [of _ "Suc j"] exI [of _ loc']) simp
    qed
  next
    fix k loc
    assume "\<exists>j loc'. j < length (item # rest) \<and> loc = Idx (i + j) # loc'
               \<and> key_at ((item # rest) ! j) loc' k"
    then obtain j loc' where j: "j < length (item # rest)" "loc = Idx (i + j) # loc'"
      "key_at ((item # rest) ! j) loc' k" by blast
    show "(k, loc) \<in> set (item_locations (item # rest) i)"
    proof (cases j)
      case 0
      with j 11 show ?thesis by (simp add: in_pushed)
    next
      case (Suc j')
      with j have "\<exists>j loc'. j < length rest \<and> loc = Idx (Suc i + j) # loc' \<and> key_at (rest ! j) loc' k"
        by (intro exI [of _ j'] exI [of _ loc']) simp
      with 11 show ?thesis by simp
    qed
  qed
qed (simp_all add: key_at_scalar)

lemma scalar_no_locations: "is_scalar T \<Longrightarrow> key_locations T = []"
  by (cases T) simp_all

lemma scalars_no_locations: "list_all is_scalar xs \<Longrightarrow> item_locations xs i = []"
  by (induction xs arbitrary: i) (simp_all add: scalar_no_locations)

lemma render_path_snoc: "render_path root (loc @ [s]) = descend (render_path root loc) s"
  by (simp add: render_path_def)

lemma path_finding_at: "path (finding_at D root occ) = render_path root (snd occ)"
  by (simp add: finding_at_def)

subsection \<open>Loading and exiting\<close>

lemma table_loader_silent:
  "\<not> reports_failure (snd (load_deprecated_features w self))
   \<Longrightarrow> path_exists w (deprecated_features_file self)"
  by (auto simp: load_deprecated_features_def path_exists_def reports_failure_def
      split: option.splits fentry.splits)

lemma config_loader_silent:
  "\<not> reports_failure (snd (load_config_data w self)) \<Longrightarrow> path_exists w (config_file self)"
  by (auto simp: load_config_data_def path_exists_def reports_failure_def
      split: option.splits fentry.splits if_splits)

lemma reports_failure_append:
  "reports_failure (xs @ ys) \<longleftrightarrow> reports_failure xs \<or> reports_failure ys"
  by (simp add: reports_failure_def)

lemma init_silent:
  assumes "init w cfile ctype dfile = (self, log)" and "\<not> reports_failure log"
  shows "path_exists w cfile \<and> path_exists w dfile"
proof -
  let ?s0 = "\<lparr>config_file = cfile, config_type = lower ctype,
               deprecated_features_file = dfile,
               deprecated_features = PNone, config_data = PNone\<rparr>"
  let ?s1 = "?s0\<lparr>deprecated_features := fst (load_deprecated_features w ?s0)\<rparr>"
  have log: "log = snd (load_deprecated_features w ?s0) @ snd (load_config_data w ?s1)"
    using assms(1) by (simp add: init_def Let_def split_beta)
  with assms(2) have t: "\<not> reports_failure (snd (load_deprecated_features w ?s0))"
    and c: "\<not> reports_failure (snd (load_config_data w ?s1))"
    by (simp_all add: reports_failure_append)
  have "path_exists w (deprecated_features_file ?s0)"
    using t by (rule table_loader_silent)
  moreover have "path_exists w (config_file ?s1)"
    using c by (rule config_loader_silent)
  ultimately show ?thesis by simp
qed

lemma main_both_exist:
  assumes "path_exists w (arg_config_file a)" and "path_exists w (arg_deprecated_features_file a)"
    and "init w (arg_config_file a) (arg_config_type a) (arg_deprecated_features_file a) = (self, log)"
  shows "main w a =
           (case fst (run self) of
              Inl e \<Rightarrow> (Inl e, log @ snd (run self))
            | Inr found \<Rightarrow> (Inr (if found \<noteq> [] then 2 else 0), log @ snd (run self)))"
  using assms by (simp add: main_def split_beta split: sum.split)

lemma matcher_not_in_loads:
  "Call Matcher \<notin> set (snd (load_deprecated_features w self))"
  "Call Matcher \<notin> set (snd (load_config_data w self))"
  by (auto simp: load_deprecated_features_def load_config_data_def
      split: option.splits fentry.splits)

lemma matcher_not_in_init:
  "init w cfile ctype dfile = (self, log) \<Longrightarrow> \<not> matcher_invoked log"
  by (auto simp: init_def Let_def split_beta matcher_invoked_def matcher_not_in_loads)

lemma run_without_exception:
  assumes "is_mapping (deprecated_features self) \<or> \<not> truthy (deprecated_features self)
           \<or> \<not> truthy (config_data self)"
  shows "fst (run self) =
           Inr (if truthy (config_data self) \<and> truthy (deprecated_features self)
                then findDeprecated (table_of (deprecated_features self)) (config_data self) (KStr [])
                else [])"
proof (cases "truthy (config_data self) \<and> truthy (deprecated_features self)")
  case True
  with assms have "is_mapping (deprecated_features self)" by blast
  then show ?thesis using True by (simp add: run_def loops_refine(1))
next
  case False
  then show ?thesis by (auto simp: run_def)
qed

lemma main_file_missing:
  assumes "\<not> path_exists w (arg_config_file a) \<or> \<not> path_exists w (arg_deprecated_features_file a)"
  shows "fst (main w a) = Inr 1 \<and> \<not> load_attempted (snd (main w a))
         \<and> \<not> matcher_invoked (snd (main w a))"
  using assms by (auto simp: main_def load_attempted_def matcher_invoked_def)

subsection \<open>Tables that are not mappings\<close>

lemma loops_no_match:
  "no_key_matches D T \<longrightarrow> find_deprecated_features D T pth = Inr []"
  "\<forall>found. list_all (\<lambda>k. py_in k D = Inr False) (map fst (entry_locations kvs))
      \<longrightarrow> dict_loop D kvs pth found = Inr found"
  "\<forall>found. list_all (\<lambda>k. py_in k D = Inr False) (map fst (item_locations xs i))
      \<longrightarrow> list_loop D xs i pth found = Inr found"
proof (induction T and kvs and xs i arbitrary: pth and pth and pth
    rule: key_locations_entry_locations_item_locations.induct)
  case (9 key val rest)
  show ?case
    using "9.IH"(1) [of "childPath pth key"] "9.IH"(2) [of pth]
    by (simp add: dict_loop_miss fst_comp_push no_key_matches_def keys_of_def)
next
  case (11 item rest i)
  show ?case
    using "11.IH"(1) [of "indexPath pth i"] "11.IH"(2) [of pth]
    by (simp add: list_loop_Cons fst_comp_push no_key_matches_def keys_of_def)
qed (simp_all add: no_key_matches_def keys_of_def)


lemma py_in_raises_TypeError: "py_in key D = Inl e \<Longrightarrow> e = TypeError"
  by (cases D; cases key) simp_all

lemma seq_index_not_KeyError: "seq_index n key \<noteq> Inl KeyError"
  by (cases key) (simp_all add: Let_def)

lemma py_getitem_not_mapping: "\<not> is_mapping D \<Longrightarrow> py_getitem D key \<noteq> Inl KeyError"
  using seq_index_not_KeyError [of _ key]
  by (cases D) (auto split: sum.splits)

lemma py_getitem_scalar_root:
  "\<not> is_mapping D \<Longrightarrow> \<not> is_sequence D \<Longrightarrow> py_in key D = Inr True
   \<Longrightarrow> py_getitem D key = Inl TypeError"
  by (cases D; cases key) simp_all

lemma dict_loop_step_scalar_root:
  assumes "\<not> is_mapping D" and "\<not> is_sequence D"
  shows "dict_loop D ((key, val) # rest) pth found =
         (if py_in key D = Inr False then
            (case find_deprecated_features D val (childPath pth key) of
               Inl e \<Rightarrow> Inl e
             | Inr sub \<Rightarrow> dict_loop D rest pth (found @ sub))
          else Inl TypeError)"
proof (cases "py_in key D")
  case (Inl e)
  then show ?thesis
    using py_in_raises_TypeError [OF Inl] by (simp add: dict_loop_in_raises)
next
  case (Inr b)
  show ?thesis
  proof (cases b)
    case True
    with Inr have hit: "py_in key D = Inr True" by simp
    then show ?thesis
      by (simp add: dict_loop_getitem_raises [OF hit py_getitem_scalar_root [OF assms hit]])
  next
    case False
    with Inr have "py_in key D = Inr False" by simp
    then show ?thesis by (simp add: dict_loop_miss)
  qed
qed

lemma loops_scalar_root:
  assumes D: "\<not> is_mapping D" "\<not> is_sequence D"
  shows "find_deprecated_features D T pth =
           (if no_key_matches D T then Inr [] else Inl TypeError)"
    and "\<forall>found. dict_loop D kvs pth found =
           (if list_all (\<lambda>k. py_in k D = Inr False) (map fst (entry_locations kvs))
            then Inr found else Inl TypeError)"
    and "\<forall>found. list_loop D xs i pth found =
           (if list_all (\<lambda>k. py_in k D = Inr False) (map fst (item_locations xs i))
            then Inr found else Inl TypeError)"
proof (induction T and kvs and xs i arbitrary: pth and pth and pth
    rule: key_locations_entry_locations_item_locations.induct)
  case (9 key val rest)
  show ?case
    using "9.IH"(1) [of "childPath pth key"] "9.IH"(2) [of pth]
    by (simp add: dict_loop_step_scalar_root [OF D] fst_comp_push no_key_matches_def keys_of_def)
next
  case (11 item rest i)
  show ?case
    using "11.IH"(1) [of "indexPath pth i"] "11.IH"(2) [of pth]
    by (simp add: list_loop_Cons fst_comp_push no_key_matches_def keys_of_def)
qed (simp_all add: no_key_matches_def keys_of_def)

lemma dict_loop_cases:
  assumes "dict_loop D ((key, val) # rest) pth found = Inr out"
  obtains (miss) sub where "py_in key D = Inr False"
      "find_deprecated_features D val (childPath pth key) = Inr sub"
      "dict_loop D rest pth (found @ sub) = Inr out"
    | (hit) info sub where "py_in key D = Inr True" "py_getitem D key = Inr info"
      "find_deprecated_features D val (childPath pth key) = Inr sub"
      "dict_loop D rest pth
         (found @ [\<lparr>feature = key, path = childPath pth key, deprecation_info = info\<rparr>] @ sub)
       = Inr out"
proof (cases "py_in key D")
  case (Inl e)
  with assms show ?thesis by (simp add: dict_loop_in_raises)
next
  case (Inr b)
  show ?thesis
  proof (cases b)
    case False
    with Inr have m: "py_in key D = Inr False" by simp
    with assms miss show ?thesis
      by (cases "find_deprecated_features D val (childPath pth key)")
        (simp_all add: dict_loop_miss)
  next
    case True
    with Inr have h: "py_in key D = Inr True" by simp
    show ?thesis
    proof (cases "py_getitem D key")
      case (Inl e)
      with assms h show ?thesis by (simp add: dict_loop_getitem_raises)
    next
      case g: (Inr info)
      with assms h hit show ?thesis
        by (cases "find_deprecated_features D val (childPath pth key)")
          (simp_all add: dict_loop_hit)
    qed
  qed
qed

lemma list_loop_cases:
  assumes "list_loop D (item # rest) i pth found = Inr out"
  obtains sub where "find_deprecated_features D item (indexPath pth i) = Inr sub"
      "list_loop D rest (Suc i) pth (found @ sub) = Inr out"
  using assms
  by (cases "find_deprecated_features D item (indexPath pth i)") (simp_all add: list_loop_Cons)

lemma loops_grow:
  "\<forall>pth. \<not> list_all (\<lambda>k. py_in k D = Inr False) (map fst (key_locations T))
      \<longrightarrow> find_deprecated_features D T pth \<noteq> Inr []"
  "\<forall>pth found out. dict_loop D kvs pth found = Inr out
      \<longrightarrow> (\<exists>ext. out = found @ ext
            \<and> (\<not> list_all (\<lambda>k. py_in k D = Inr False) (map fst (entry_locations kvs))
                 \<longrightarrow> ext \<noteq> []))"
  "\<forall>pth found out. list_loop D xs i pth found = Inr out
      \<longrightarrow> (\<exists>ext. out = found @ ext
            \<and> (\<not> list_all (\<lambda>k. py_in k D = Inr False) (map fst (item_locations xs i))
                 \<longrightarrow> ext \<noteq> []))"
proof (induction T and kvs and xs i rule: key_locations_entry_locations_item_locations.induct)
  case (1 kvs)
  then show ?case by fastforce
next
  case (2 xs)
  then show ?case by fastforce
next
  case (9 key val rest)
  show ?case
  proof (intro allI impI)
    fix pth found out
    assume run: "dict_loop D ((key, val) # rest) pth found = Inr out"
    from run show "\<exists>ext. out = found @ ext
            \<and> (\<not> list_all (\<lambda>k. py_in k D = Inr False)
                     (map fst (entry_locations ((key, val) # rest)))
                 \<longrightarrow> ext \<noteq> [])"
    proof (cases rule: dict_loop_cases)
      case (miss sub)
      from "9.IH"(2) miss(3) obtain ext where ext: "out = (found @ sub) @ ext"
        "\<not> list_all (\<lambda>k. py_in k D = Inr False) (map fst (entry_locations rest)) \<longrightarrow> ext \<noteq> []"
        by blast
      have "\<not> list_all (\<lambda>k. py_in k D = Inr False) (map fst (key_locations val)) \<longrightarrow> sub \<noteq> []"
        using "9.IH"(1) miss(2) by auto
      with ext miss(1) show ?thesis
        by (intro exI [of _ "sub @ ext"]) (auto simp: fst_comp_push)
    next
      case (hit info sub)
      from "9.IH"(2) hit(4) obtain ext where
        "out = (found @ [\<lparr>feature = key, path = childPath pth key, deprecation_info = info\<rparr>] @ sub) @ ext"
        by blast
      then show ?thesis
        by (intro exI [of _ "[\<lparr>feature = key, path = childPath pth key, deprecation_info = info\<rparr>] @ sub @ ext"])
          simp
    qed
  qed
next
  case (11 item rest i)
  show ?case
  proof (intro allI impI)
    fix pth found out
    assume run: "list_loop D (item # rest) i pth found = Inr out"
    from run show "\<exists>ext. out = found @ ext
            \<and> (\<not> list_all (\<lambda>k. py_in k D = Inr False)
                     (map fst (item_locations (item # rest) i))
                 \<longrightarrow> ext \<noteq> [])"
    proof (cases rule: list_loop_cases)
      case (1 sub)
      from "11.IH"(2) 1(2) obtain ext where ext: "out = (found @ sub) @ ext"
        "\<not> list_all (\<lambda>k. py_in k D = Inr False) (map fst (item_locations rest (Suc i)))
           \<longrightarrow> ext \<noteq> []"
        by blast
      have "\<not> list_all (\<lambda>k. py_in k D = Inr False) (map fst (key_locations item)) \<longrightarrow> sub \<noteq> []"
        using "11.IH"(1) 1(1) by auto
      with ext show ?thesis
        by (intro exI [of _ "sub @ ext"]) (auto simp: fst_comp_push)
    qed
  qed
qed simp_all

lemma loops_built:
  "\<forall>pth out. find_deprecated_features D T pth = Inr out \<longrightarrow> list_all (built_from D) out"
  "\<forall>pth found out. list_all (built_from D) found \<and> dict_loop D kvs pth found = Inr out
      \<longrightarrow> list_all (built_from D) out"
  "\<forall>pth found out. list_all (built_from D) found \<and> list_loop D xs i pth found = Inr out
      \<longrightarrow> list_all (built_from D) out"
proof (induction T and kvs and xs i rule: key_locations_entry_locations_item_locations.induct)
  case (1 kvs)
  have "list_all (built_from D) []" by simp
  with 1 show ?case by (metis find_deprecated_features.simps(1))
next
  case (2 xs)
  have "list_all (built_from D) []" by simp
  with 2 show ?case by (metis find_deprecated_features.simps(2))
next
  case (9 key val rest)
  show ?case
  proof (intro allI impI, elim conjE)
    fix pth found out
    assume found: "list_all (built_from D) found"
      and run: "dict_loop D ((key, val) # rest) pth found = Inr out"
    from run show "list_all (built_from D) out"
    proof (cases rule: dict_loop_cases)
      case (miss sub)
      with "9.IH" found show ?thesis by (metis list_all_append)
    next
      case (hit info sub)
      have "built_from D \<lparr>feature = key, path = childPath pth key, deprecation_info = info\<rparr>"
        using hit(1,2) by (simp add: built_from_def)
      moreover have "list_all (built_from D) sub" using "9.IH"(1) hit(3) by blast
      ultimately have "list_all (built_from D)
          (found @ [\<lparr>feature = key, path = childPath pth key, deprecation_info = info\<rparr>] @ sub)"
        using found by simp
      with "9.IH"(2) hit(4) show ?thesis by blast
    qed
  qed
next
  case (11 item rest i)
  show ?case
  proof (intro allI impI, elim conjE)
    fix pth found out
    assume found: "list_all (built_from D) found"
      and run: "list_loop D (item # rest) i pth found = Inr out"
    from run show "list_all (built_from D) out"
    proof (cases rule: list_loop_cases)
      case (1 sub)
      with "11.IH" found show ?thesis by (metis list_all_append)
    qed
  qed
qed auto

lemma loops_no_KeyError:
  assumes D: "\<not> is_mapping D"
  shows "\<forall>pth. find_deprecated_features D T pth \<noteq> Inl KeyError"
    and "\<forall>pth found. dict_loop D kvs pth found \<noteq> Inl KeyError"
    and "\<forall>pth found. list_loop D xs i pth found \<noteq> Inl KeyError"
proof (induction T and kvs and xs i rule: key_locations_entry_locations_item_locations.induct)
  case (9 key val rest)
  show ?case
  proof (intro allI)
    fix pth found
    show "dict_loop D ((key, val) # rest) pth found \<noteq> Inl KeyError"
    proof (cases "py_in key D")
      case (Inl e)
      then show ?thesis using py_in_raises_TypeError [OF Inl] by (simp add: dict_loop_in_raises)
    next
      case (Inr b)
      show ?thesis
      proof (cases b)
        case False
        with Inr have "py_in key D = Inr False" by simp
        then show ?thesis using 9 by (auto simp: dict_loop_miss split: sum.split)
      next
        case True
        with Inr have h: "py_in key D = Inr True" by simp
        show ?thesis
        proof (cases "py_getitem D key")
          case (Inl e)
          with h py_getitem_not_mapping [OF D, of key] show ?thesis
            by (simp add: dict_loop_getitem_raises)
        next
          case (Inr info)
          with h 9 show ?thesis by (auto simp: dict_loop_hit split: sum.split)
        qed
      qed
    qed
  qed
next
  case (11 item rest i)
  then show ?case by (auto simp: list_loop_Cons split: sum.split)
qed simp_all

subsection \<open>Decimal indices and paths of string-keyed trees\<close>

lemma digit_value_digit: "d < 10 \<Longrightarrow> digit_value (digit d) = d"
proof -
  assume "d < 10"
  then have "d \<in> {0, 1, 2, 3, 4, 5, 6, 7, 8, 9}" by auto
  then show ?thesis
    by (auto simp: digit_def digit_value_def)
qed

lemma nat_of_str_snoc: "nat_of_str (s @ [c]) = 10 * nat_of_str s + digit_value c"
  by (simp add: nat_of_str_def)

lemma nat_of_str_of_nat: "nat_of_str (str_of_nat n) = n"
proof (induction n rule: str_of_nat.induct)
  case (1 n)
  show ?case
  proof (cases "n < 10")
    case True
    then show ?thesis
      by (subst str_of_nat.simps) (simp add: nat_of_str_def digit_value_digit)
  next
    case False
    then have "nat_of_str (str_of_nat n) = 10 * (n div 10) + n mod 10"
      using 1 by (subst str_of_nat.simps) (simp add: nat_of_str_snoc digit_value_digit)
    then show ?thesis by simp
  qed
qed

lemma built_from_not_mapping:
  "\<not> is_mapping D \<Longrightarrow> built_from D f \<Longrightarrow> is_sequence D \<and> is_index_key (feature f)"
  by (cases D; cases "feature f") (auto simp: built_from_def split: sum.splits)

lemma descend_string:
  "is_str_step s \<Longrightarrow> descend (KStr p) s = KStr (spec_descend p s)"
proof (cases s)
  case (Key k)
  assume "is_str_step s"
  with Key obtain t where "k = KStr t" by (cases k) simp_all
  with Key show ?thesis by (simp add: childPath_def specChildPath_def)
next
  case (Idx i)
  then show ?thesis by (simp add: indexPath_def)
qed

lemma render_path_string:
  "list_all is_str_step loc \<Longrightarrow> render_path (KStr p) loc = KStr (foldl spec_descend p loc)"
  unfolding render_path_def
  by (induction loc arbitrary: p) (simp_all add: descend_string)

lemma str_steps_pushed:
  "is_str_step s \<Longrightarrow> list_all (\<lambda>occ. list_all is_str_step (snd occ)) occs
   \<Longrightarrow> list_all (\<lambda>occ. list_all is_str_step (snd occ)) (map (push s) occs)"
  by (induction occs) auto

lemma string_keyed_locations:
  "list_all is_str_key (map fst (key_locations T))
     \<longrightarrow> list_all (\<lambda>occ. list_all is_str_step (snd occ)) (key_locations T)"
  "list_all is_str_key (map fst (entry_locations kvs))
     \<longrightarrow> list_all (\<lambda>occ. list_all is_str_step (snd occ)) (entry_locations kvs)"
  "list_all is_str_key (map fst (item_locations xs i))
     \<longrightarrow> list_all (\<lambda>occ. list_all is_str_step (snd occ)) (item_locations xs i)"
proof (induction T and kvs and xs i rule: key_locations_entry_locations_item_locations.induct)
  case (9 key val rest)
  then show ?case by (auto simp: fst_comp_push intro!: str_steps_pushed)
next
  case (11 item rest i)
  then show ?case by (auto simp: fst_comp_push intro!: str_steps_pushed)
qed simp_all

lemma string_keyed_paths:
  assumes "string_keyed T"
  shows "map (\<lambda>occ. path (finding_at D (KStr []) occ)) (filter (in_table D) (key_locations T)) =
         map (\<lambda>occ. KStr (spec_path (snd occ))) (filter (in_table D) (key_locations T))"
proof (rule map_cong [OF refl])
  fix occ
  assume "occ \<in> set (filter (in_table D) (key_locations T))"
  then have "occ \<in> set (key_locations T)" by simp
  moreover have "list_all (\<lambda>occ. list_all is_str_step (snd occ)) (key_locations T)"
    using assms string_keyed_locations(1) [of T] by (simp add: string_keyed_def keys_of_def)
  ultimately have "list_all is_str_step (snd occ)" by (simp add: list_all_iff)
  then show "path (finding_at D (KStr []) occ) = KStr (spec_path (snd occ))"
    by (simp add: path_finding_at render_path_string spec_path_def)
qed

lemma spec_path_snoc: "spec_path (loc @ [s]) = spec_descend (spec_path loc) s"
  by (simp add: spec_path_def)

section \<open>The claims about the matcher\<close>

text \<open>
  Claim C7. With an empty deprecation table the matcher returns the empty list for every
  tree, and on the empty mapping it returns the empty list for every table, whatever the
  table is; \<^verbatim>\<open>run\<close> returns the empty list in both cases as well.
\<close>

theorem empty_table_or_tree_no_findings:
  "find_deprecated_features (PDict []) T pth = Inr []
   \<and> find_deprecated_features D (PDict []) pth = Inr []
   \<and> fst (run (self\<lparr>deprecated_features := PDict []\<rparr>)) = Inr []
   \<and> fst (run (self\<lparr>config_data := PDict []\<rparr>)) = Inr []"
proof (intro conjI)
  have "table_of (PDict []) = (\<lambda>k. None)" by (rule ext) simp
  then show "find_deprecated_features (PDict []) T pth = Inr []"
    using loops_refine(1) [of "PDict []" T pth] by (simp add: findDeprecated_empty(1))
qed (simp_all add: run_def)

text \<open>The same at a tree with nested keys, at a table with an entry, and at two objects.\<close>

theorem empty_table_or_tree_no_findings_witness:
  "find_deprecated_features (PDict []) (PDict [(KStr ''a'', PList [PDict [(KStr ''b'', PInt 2)]])]) (KStr []) = Inr []
   \<and> find_deprecated_features (PDict [(KStr ''a'', PNone)]) (PDict []) (KStr []) = Inr []
   \<and> fst (run \<lparr>config_file = ''c.json'', config_type = ''json'',
                 deprecated_features_file = ''d.json'', deprecated_features = PDict [],
                 config_data = PDict [(KStr ''a'', PInt 1)]\<rparr>) = Inr []
   \<and> fst (run \<lparr>config_file = ''c.json'', config_type = ''json'',
                 deprecated_features_file = ''d.json'',
                 deprecated_features = PDict [(KStr ''a'', PNone)],
                 config_data = PDict []\<rparr>) = Inr []"
  using empty_table_or_tree_no_findings [of "PDict [(KStr ''a'', PList [PDict [(KStr ''b'', PInt 2)]])]" "KStr []"
      "PDict [(KStr ''a'', PNone)]"
      "\<lparr>config_file = ''c.json'', config_type = ''json'',
        deprecated_features_file = ''d.json'', deprecated_features = PDict [(KStr ''a'', PNone)],
        config_data = PDict [(KStr ''a'', PInt 1)]\<rparr>"]
  by simp

text \<open>
  Claim C8. A call of the matcher has exactly one outcome: the executions of its body on
  a table, a tree and a path all end with the same list of entries in the same order, or
  all with the same exception, and that outcome is the value of
  \<open>find_deprecated_features\<close>. Running it again on the same inputs therefore yields the
  identical sequence.
\<close>

theorem matcher_deterministic:
  "walk D T pth (find_deprecated_features D T pth)
   \<and> (\<forall>r1 r2. walk D T pth r1 \<and> walk D T pth r2 \<longrightarrow> r1 = r2)"
proof
  show "walk D T pth (find_deprecated_features D T pth)"
    by (rule walk_complete(1))
  show "\<forall>r1 r2. walk D T pth r1 \<and> walk D T pth r2 \<longrightarrow> r1 = r2"
    using walk_sound(1) [of D T pth] by metis
qed

text \<open>
  Two executions at a table with one entry: one ends as the function computes, the other
  is any execution ending in a list, and the two lists are the same.
\<close>

theorem matcher_deterministic_witness:
  "walk (PDict [(KStr ''old'', PInt 7)]) (PList [PDict [(KStr ''old'', PBool True)]]) (KStr [])
     (Inr [\<lparr>feature = KStr ''old'', path = KStr ''[0].old'', deprecation_info = PInt 7\<rparr>])
   \<and> find_deprecated_features (PDict [(KStr ''old'', PInt 7)])
         (PList [PDict [(KStr ''old'', PBool True)]]) (KStr []) =
       Inr [\<lparr>feature = KStr ''old'', path = KStr ''[0].old'', deprecation_info = PInt 7\<rparr>]"
  using matcher_deterministic [of "PDict [(KStr ''old'', PInt 7)]"
      "PList [PDict [(KStr ''old'', PBool True)]]" "KStr []"]
  by (simp add: dict_loop.simps(2) list_loop.simps(2) str_of_nat.simps digit_def)

text \<open>
  Claim C9. For a table that is a mapping the matcher returns a list on every tree and
  path, never an exception and never an absent value. The list is the one the walk of the
  specification builds, in its order: it is empty when no key of the tree is in the table,
  and the entry of a mapping key comes first, then the entries from within its value, then
  those of the entries that follow.
\<close>

theorem matcher_total_preorder:
  "is_mapping D \<Longrightarrow>
     find_deprecated_features D T pth = Inr (findDeprecated (table_of D) T pth)
     \<and> (list_all (\<lambda>k. table_of D k = None) (keys_of T)
          \<longrightarrow> find_deprecated_features D T pth = Inr [])
     \<and> (table_of D key = Some info
          \<longrightarrow> find_deprecated_features D (PDict ((key, val) # rest)) pth =
              Inr (\<lparr>feature = key, path = childPath pth key, deprecation_info = info\<rparr>
                   # findDeprecated (table_of D) val (childPath pth key)
                   @ findDeprecated (table_of D) (PDict rest) pth))"
proof (intro conjI impI)
  assume D: "is_mapping D"
  show "find_deprecated_features D T pth = Inr (findDeprecated (table_of D) T pth)"
    by (rule loops_refine(1) [OF D])
  show "find_deprecated_features D T pth = Inr []"
    if "list_all (\<lambda>k. table_of D k = None) (keys_of T)"
    using that
    by (simp only: loops_refine(1) [OF D] findDeprecated_locations(1) keys_of_def no_key_in_table)
      simp
  show "find_deprecated_features D (PDict ((key, val) # rest)) pth =
          Inr (\<lparr>feature = key, path = childPath pth key, deprecation_info = info\<rparr>
               # findDeprecated (table_of D) val (childPath pth key)
               @ findDeprecated (table_of D) (PDict rest) pth)"
    if "table_of D key = Some info"
    using that by (simp only: loops_refine(1) [OF D]) simp
qed

text \<open>
  At a table holding \<^verbatim>\<open>old\<close>: three entries in pre-order for a tree with the key at three
  places, and the empty list for a tree that has \<^verbatim>\<open>old\<close> as a value only.
\<close>

theorem matcher_total_preorder_witness:
  "is_mapping (PDict [(KStr ''old'', PStr ''use new'')])
   \<and> find_deprecated_features (PDict [(KStr ''old'', PStr ''use new'')])
        (PDict [(KStr ''old'', PDict [(KStr ''old'', PInt 1)]),
                (KStr ''x'', PList [PNone, PDict [(KStr ''old'', PNone)]])]) (KStr []) =
       Inr [\<lparr>feature = KStr ''old'', path = KStr ''old'', deprecation_info = PStr ''use new''\<rparr>,
            \<lparr>feature = KStr ''old'', path = KStr ''old.old'', deprecation_info = PStr ''use new''\<rparr>,
            \<lparr>feature = KStr ''old'', path = KStr ''x[1].old'', deprecation_info = PStr ''use new''\<rparr>]
   \<and> find_deprecated_features (PDict [(KStr ''old'', PStr ''use new'')])
        (PDict [(KStr ''new'', PStr ''old'')]) (KStr []) = Inr []"
  using matcher_total_preorder [of "PDict [(KStr ''old'', PStr ''use new'')]"
      "PDict [(KStr ''old'', PDict [(KStr ''old'', PInt 1)]),
              (KStr ''x'', PList [PNone, PDict [(KStr ''old'', PNone)]])]" "KStr []"
      "KStr ''old''" "PStr ''use new''" "PDict [(KStr ''old'', PInt 1)]"
      "[(KStr ''x'', PList [PNone, PDict [(KStr ''old'', PNone)]])]"]
    matcher_total_preorder [of "PDict [(KStr ''old'', PStr ''use new'')]"
      "PDict [(KStr ''new'', PStr ''old'')]" "KStr []"]
  by (simp add: childPath_def indexPath_def str_of_nat.simps digit_def keys_of_def)

text \<open>
  Claim C1. For a table that is a mapping, the matcher returns exactly one entry for each
  occurrence of a mapping key of the tree that is a key of the table, in the order of the
  walk and without removing duplicates: its feature is the key, its path is the rendering
  of the position, its info is the table's value. The occurrences listed are exactly the
  positions at which the tree has a mapping key. A scalar yields nothing, a sequence of
  scalars yields nothing, and a scalar value under a key that is not in the table yields
  nothing, also when that scalar is the name of a deprecated feature.
\<close>

theorem findings_are_key_occurrences:
  "is_mapping D \<Longrightarrow>
     find_deprecated_features D T pth =
       Inr (map (finding_at D pth) (filter (in_table D) (key_locations T)))
     \<and> (\<forall>k loc. (k, loc) \<in> set (key_locations T) \<longleftrightarrow> key_at T loc k)
     \<and> (is_scalar T \<longrightarrow> find_deprecated_features D T pth = Inr [])
     \<and> (list_all is_scalar xs \<longrightarrow> find_deprecated_features D (PList xs) pth = Inr [])
     \<and> (table_of D key = None \<and> is_scalar v
          \<longrightarrow> find_deprecated_features D (PDict [(key, v)]) pth = Inr [])"
proof (intro conjI impI)
  assume D: "is_mapping D"
  have eq: "find_deprecated_features D T' p =
              Inr (map (finding_at D p) (filter (in_table D) (key_locations T')))" for T' p
    by (simp only: loops_refine(1) [OF D] findDeprecated_locations(1))
  show "find_deprecated_features D T pth =
          Inr (map (finding_at D pth) (filter (in_table D) (key_locations T)))"
    by (rule eq)
  show "\<forall>k loc. (k, loc) \<in> set (key_locations T) \<longleftrightarrow> key_at T loc k"
    by (rule key_locations_iff(1))
  show "find_deprecated_features D T pth = Inr []" if "is_scalar T"
    using that by (simp only: eq scalar_no_locations) simp
  show "find_deprecated_features D (PList xs) pth = Inr []" if "list_all is_scalar xs"
    using that by (simp only: eq key_locations.simps scalars_no_locations) simp
  show "find_deprecated_features D (PDict [(key, v)]) pth = Inr []"
    if "table_of D key = None \<and> is_scalar v"
    using that
    by (simp only: eq key_locations.simps entry_locations.simps scalar_no_locations)
      (simp add: in_table_def)
qed

text \<open>
  At a table holding \<^verbatim>\<open>old\<close>: the key is reported at both places where it is a mapping
  key, and the two strings \<^verbatim>\<open>old\<close> that are a value and a sequence item are not.
\<close>

theorem findings_are_key_occurrences_witness:
  "is_mapping (PDict [(KStr ''old'', PInt 1)])
   \<and> find_deprecated_features (PDict [(KStr ''old'', PInt 1)])
        (PDict [(KStr ''old'', PStr ''old''),
                (KStr ''list'', PList [PStr ''old'', PDict [(KStr ''old'', PNone)]])]) (KStr []) =
       Inr [\<lparr>feature = KStr ''old'', path = KStr ''old'', deprecation_info = PInt 1\<rparr>,
            \<lparr>feature = KStr ''old'', path = KStr ''list[1].old'', deprecation_info = PInt 1\<rparr>]"
proof -
  have D: "is_mapping (PDict [(KStr ''old'', PInt 1)])" by simp
  show ?thesis
    using findings_are_key_occurrences [OF D, THEN conjunct1,
        of "PDict [(KStr ''old'', PStr ''old''),
                   (KStr ''list'', PList [PStr ''old'', PDict [(KStr ''old'', PNone)]])]" "KStr []"]
    by (simp add: finding_at_def in_table_def render_path_def childPath_def indexPath_def
        str_of_nat.simps digit_def)
qed

text \<open>
  Claim C4 at a YAML configuration whose root mapping has the integer key \<^verbatim>\<open>0\<close>, or the key
  \<^verbatim>\<open>no\<close> that YAML reads as \<^verbatim>\<open>False\<close>, above a deprecated key. With the empty path, line 93
  makes the key object itself the path; the test \<^verbatim>\<open>if path\<close> then fails again on that
  falsy object and the prefix is lost: the entry is reported at \<^verbatim>\<open>old_setting\<close>, where the
  rule of the claim gives \<^verbatim>\<open>0.old_setting\<close> and \<^verbatim>\<open>False.old_setting\<close> for the position of
  the key.
\<close>

theorem falsy_key_drops_path_prefix:
  "find_deprecated_features (PDict [(KStr ''old_setting'', PStr ''gone'')])
     (PDict [(KInt 0, PDict [(KStr ''old_setting'', PInt 1)])]) (KStr []) =
     Inr [\<lparr>feature = KStr ''old_setting'', path = KStr ''old_setting'',
           deprecation_info = PStr ''gone''\<rparr>]
   \<and> key_at (PDict [(KInt 0, PDict [(KStr ''old_setting'', PInt 1)])])
        [Key (KInt 0), Key (KStr ''old_setting'')] (KStr ''old_setting'')
   \<and> spec_path [Key (KInt 0), Key (KStr ''old_setting'')] = ''0.old_setting''
   \<and> find_deprecated_features (PDict [(KStr ''old_setting'', PStr ''gone'')])
     (PDict [(KBool False, PDict [(KStr ''old_setting'', PInt 1)])]) (KStr []) =
     Inr [\<lparr>feature = KStr ''old_setting'', path = KStr ''old_setting'',
           deprecation_info = PStr ''gone''\<rparr>]
   \<and> spec_path [Key (KBool False), Key (KStr ''old_setting'')] = ''False.old_setting''"
proof -
  have "(KStr ''old_setting'', [Key (KInt 0), Key (KStr ''old_setting'')])
          \<in> set (key_locations (PDict [(KInt 0, PDict [(KStr ''old_setting'', PInt 1)])]))"
    by simp
  then have "key_at (PDict [(KInt 0, PDict [(KStr ''old_setting'', PInt 1)])])
        [Key (KInt 0), Key (KStr ''old_setting'')] (KStr ''old_setting'')"
    by (simp only: key_locations_iff(1))
  then show ?thesis
    by (simp add: dict_loop.simps(2) list_loop.simps(2) spec_path_def specChildPath_def
        str_of_int_def str_of_nat.simps digit_def)
qed

text \<open>
  On a tree all of whose mapping keys are strings, the matcher follows the rule: called
  with the empty path and a table that is a mapping, the path of every entry is the
  position of its key rendered from the root, a key \<open>k\<close> as \<open>k\<close> after the empty path and
  as the path, a dot and \<open>k\<close> otherwise, an index \<open>i\<close> as the path followed by \<open>i\<close> in
  brackets, in decimal. For the tree \<^verbatim>\<open>{"a": {"b": [1, {"c": 2}]}}\<close> and a table holding
  \<^verbatim>\<open>c\<close>, the entry for \<^verbatim>\<open>c\<close> has the path \<^verbatim>\<open>a.b[1].c\<close>.
\<close>

theorem finding_paths:
  "(string_keyed T \<and> is_mapping D \<longrightarrow>
      (\<exists>found. find_deprecated_features D T (KStr []) = Inr found
         \<and> map path found =
             map (\<lambda>occ. KStr (spec_path (snd occ))) (filter (in_table D) (key_locations T))))
   \<and> spec_path [] = []
   \<and> spec_path (loc @ [Key (KStr k)]) =
       (if spec_path loc = [] then k else spec_path loc @ ''.'' @ k)
   \<and> spec_path (loc @ [Idx i]) = spec_path loc @ ''['' @ str_of_nat i @ '']''
   \<and> nat_of_str (str_of_nat i) = i
   \<and> (is_mapping D \<and> table_of D (KStr ''c'') = Some info \<longrightarrow>
        (\<exists>found. find_deprecated_features D
                    (PDict [(KStr ''a'',
                       PDict [(KStr ''b'', PList [PInt 1, PDict [(KStr ''c'', PInt 2)]])])])
                    (KStr []) = Inr found
           \<and> filter (\<lambda>f. feature f = KStr ''c'') found =
               [\<lparr>feature = KStr ''c'', path = KStr ''a.b[1].c'', deprecation_info = info\<rparr>]))"
proof (intro conjI impI)
  show "\<exists>found. find_deprecated_features D T (KStr []) = Inr found
         \<and> map path found =
             map (\<lambda>occ. KStr (spec_path (snd occ))) (filter (in_table D) (key_locations T))"
    if "string_keyed T \<and> is_mapping D"
  proof -
    from that have T: "string_keyed T" and D: "is_mapping D" by simp_all
    show ?thesis
      by (simp only: loops_refine(1) [OF D] findDeprecated_locations(1))
        (simp add: comp_def string_keyed_paths [OF T])
  qed
  show "spec_path [] = []" by (simp add: spec_path_def)
  show "spec_path (loc @ [Key (KStr k)]) =
          (if spec_path loc = [] then k else spec_path loc @ ''.'' @ k)"
    by (simp add: spec_path_snoc specChildPath_def)
  show "spec_path (loc @ [Idx i]) = spec_path loc @ ''['' @ str_of_nat i @ '']''"
    by (simp add: spec_path_snoc)
  show "nat_of_str (str_of_nat i) = i" by (rule nat_of_str_of_nat)
  show "\<exists>found. find_deprecated_features D
                    (PDict [(KStr ''a'',
                       PDict [(KStr ''b'', PList [PInt 1, PDict [(KStr ''c'', PInt 2)]])])])
                    (KStr []) = Inr found
           \<and> filter (\<lambda>f. feature f = KStr ''c'') found =
               [\<lparr>feature = KStr ''c'', path = KStr ''a.b[1].c'', deprecation_info = info\<rparr>]"
    if "is_mapping D \<and> table_of D (KStr ''c'') = Some info"
  proof -
    from that have D: "is_mapping D" and c: "table_of D (KStr ''c'') = Some info" by simp_all
    show ?thesis
      by (simp only: loops_refine(1) [OF D])
        (simp add: c childPath_def indexPath_def str_of_nat.simps digit_def
          split: option.split)
  qed
qed

text \<open>
  The key \<^verbatim>\<open>c\<close> under the thirteenth item of a sequence, and the tree of the claim with a
  table that holds \<^verbatim>\<open>c\<close> only.
\<close>

theorem finding_paths_witness:
  "string_keyed (PDict [(KStr ''b'', PList [PInt 0, PInt 1, PInt 2, PInt 3, PInt 4, PInt 5,
        PInt 6, PInt 7, PInt 8, PInt 9, PInt 10, PInt 11, PDict [(KStr ''c'', PInt 2)]])])
   \<and> is_mapping (PDict [(KStr ''c'', PStr ''gone'')])
   \<and> find_deprecated_features (PDict [(KStr ''c'', PStr ''gone'')])
        (PDict [(KStr ''b'', PList [PInt 0, PInt 1, PInt 2, PInt 3, PInt 4, PInt 5,
           PInt 6, PInt 7, PInt 8, PInt 9, PInt 10, PInt 11, PDict [(KStr ''c'', PInt 2)]])])
        (KStr []) =
       Inr [\<lparr>feature = KStr ''c'', path = KStr ''b[12].c'', deprecation_info = PStr ''gone''\<rparr>]
   \<and> spec_path [Key (KStr ''b''), Idx 12, Key (KStr ''c'')] = ''b[12].c''
   \<and> find_deprecated_features (PDict [(KStr ''c'', PStr ''gone'')])
        (PDict [(KStr ''a'', PDict [(KStr ''b'', PList [PInt 1, PDict [(KStr ''c'', PInt 2)]])])])
        (KStr []) =
       Inr [\<lparr>feature = KStr ''c'', path = KStr ''a.b[1].c'', deprecation_info = PStr ''gone''\<rparr>]"
proof -
  let ?D = "PDict [(KStr ''c'', PStr ''gone'')]"
  let ?T = "PDict [(KStr ''b'', PList [PInt 0, PInt 1, PInt 2, PInt 3, PInt 4, PInt 5,
        PInt 6, PInt 7, PInt 8, PInt 9, PInt 10, PInt 11, PDict [(KStr ''c'', PInt 2)]])]"
  have T: "string_keyed ?T" by (simp add: string_keyed_def keys_of_def)
  have D: "is_mapping ?D" by simp
  have p: "spec_path [Key (KStr ''b''), Idx 12, Key (KStr ''c'')] = ''b[12].c''"
    by (simp add: spec_path_def specChildPath_def str_of_nat.simps digit_def)
  show ?thesis
    using finding_paths [of ?T ?D "[Key (KStr ''b''), Idx 12]" "''c''" 12 "PStr ''gone''"] T D p
    by (simp add: in_table_def spec_path_def specChildPath_def str_of_nat.simps digit_def
        dict_loop.simps(2) list_loop.simps(2))
qed

text \<open>
  Claim C5, as stated, fails: with the number 5 as the root of the table and a tree that
  has a mapping key, the membership test raises \<^verbatim>\<open>TypeError\<close>.
\<close>

theorem non_mapping_table_raises:
  "\<not> is_mapping (PInt 5)
   \<and> find_deprecated_features (PInt 5) (PDict [(KStr ''a'', PInt 1)]) (KStr []) = Inl TypeError"
  by (simp add: dict_loop.simps(2))

text \<open>
  Claim C5, amended. When the root of the table is not a mapping, a call of the matcher
  returns the empty list exactly when the membership test is false for every mapping key
  of the tree. When the root is not an array either, every other call raises \<^verbatim>\<open>TypeError\<close>,
  so no entry is ever returned. When the root is an array, an entry can be returned: each
  returned entry is for an integer or boolean key that equals an item of the array, and
  its info is the item at that index. \<^verbatim>\<open>KeyError\<close> is never raised. A falsy root does not
  reach the matcher through \<^verbatim>\<open>run\<close>, which returns the empty list at its guard.
\<close>

theorem non_mapping_table_outcome:
  "\<not> is_mapping D \<Longrightarrow>
     (no_key_matches D T \<longleftrightarrow> find_deprecated_features D T pth = Inr [])
   \<and> (\<not> is_sequence D \<longrightarrow>
        find_deprecated_features D T pth =
          (if no_key_matches D T then Inr [] else Inl TypeError))
   \<and> (\<forall>found. find_deprecated_features D T pth = Inr found
        \<longrightarrow> list_all (\<lambda>f. built_from D f \<and> is_sequence D \<and> is_index_key (feature f)) found)
   \<and> find_deprecated_features D T pth \<noteq> Inl KeyError
   \<and> (\<not> truthy D \<and> deprecated_features self = D
        \<longrightarrow> run self = (Inr [], [ErrFailedToLoad]))"
proof (intro conjI impI allI)
  assume D: "\<not> is_mapping D"
  show "no_key_matches D T \<longleftrightarrow> find_deprecated_features D T pth = Inr []"
    using loops_no_match(1) [of D T pth] loops_grow(1) [of D T]
    by (auto simp: no_key_matches_def keys_of_def)
  show "find_deprecated_features D T pth =
          (if no_key_matches D T then Inr [] else Inl TypeError)"
    if "\<not> is_sequence D"
    using D that by (rule loops_scalar_root(1))
  show "list_all (\<lambda>f. built_from D f \<and> is_sequence D \<and> is_index_key (feature f)) found"
    if "find_deprecated_features D T pth = Inr found" for found
  proof -
    have "list_all (built_from D) found"
      using loops_built(1) [of D T] that by blast
    then show ?thesis
      using built_from_not_mapping [OF D] by (auto simp: list_all_iff)
  qed
  show "find_deprecated_features D T pth \<noteq> Inl KeyError"
    using loops_no_KeyError(1) [OF D, of T] by blast
  show "run self = (Inr [], [ErrFailedToLoad])"
    if "\<not> truthy D \<and> deprecated_features self = D"
    using that by (auto simp: run_def)
qed

text \<open>
  An array root that holds none of the keys; a string root in which a key occurs; an array
  root and a YAML configuration with the integer key 1, which is reported, or with the key
  5, which is out of range; an array root holding a string key; and the root 0, with which
  \<^verbatim>\<open>run\<close> does not scan.
\<close>

theorem non_mapping_table_outcome_witness:
  "\<not> is_mapping (PList [PStr ''x''])
   \<and> find_deprecated_features (PList [PStr ''x''])
        (PDict [(KStr ''a'', PList [PStr ''x''])]) (KStr []) = Inr []
   \<and> \<not> is_mapping (PStr ''table'')
   \<and> find_deprecated_features (PStr ''table'')
        (PDict [(KStr ''a'', PDict [(KStr ''ab'', PInt 1)])]) (KStr []) = Inl TypeError
   \<and> \<not> is_mapping (PList [PInt 0, PInt 1])
   \<and> find_deprecated_features (PList [PInt 0, PInt 1])
        (PDict [(KInt 1, PStr ''x'')]) (KStr []) =
       Inr [\<lparr>feature = KInt 1, path = KInt 1, deprecation_info = PInt 1\<rparr>]
   \<and> find_deprecated_features (PList [PInt 5]) (PDict [(KInt 5, PStr ''x'')]) (KStr []) =
       Inl IndexError
   \<and> find_deprecated_features (PList [PStr ''x'']) (PDict [(KStr ''x'', PInt 1)]) (KStr []) =
       Inl TypeError
   \<and> run \<lparr>config_file = ''c.yaml'', config_type = ''yaml'',
           deprecated_features_file = ''d.json'', deprecated_features = PInt 0,
           config_data = PDict [(KStr ''a'', PInt 1)]\<rparr> = (Inr [], [ErrFailedToLoad])"
proof -
  have a: "\<not> is_mapping (PList [PStr ''x''])" and b: "\<not> is_mapping (PStr ''table'')"
    and c: "\<not> is_mapping (PList [PInt 0, PInt 1])" and d: "\<not> is_mapping (PInt 0)"
    by simp_all
  show ?thesis
    using non_mapping_table_outcome [OF a, of "PDict [(KStr ''a'', PList [PStr ''x''])]" "KStr []"]
      non_mapping_table_outcome [OF b, of "PDict [(KStr ''a'', PDict [(KStr ''ab'', PInt 1)])]"
        "KStr []"]
      non_mapping_table_outcome [OF d, of _ _
        "\<lparr>config_file = ''c.yaml'', config_type = ''yaml'',
          deprecated_features_file = ''d.json'', deprecated_features = PInt 0,
          config_data = PDict [(KStr ''a'', PInt 1)]\<rparr>"]
    by (simp add: no_key_matches_def keys_of_def py_eq_def dict_loop.simps(2))
qed

section \<open>The claims about loading and exiting\<close>

text \<open>
  Claim C6, as stated, fails: a configuration file that is there but cannot be opened,
  such as a directory, makes the loader log an error and return \<^verbatim>\<open>None\<close>, although the
  file is not absent, the type is supported and there is no text that fails to parse.
\<close>

theorem config_loader_unreadable_file:
  "reports_failure (snd (load_config_data
      \<lparr>files = [''conf.d'' \<mapsto> Unreadable], yaml_safe_load = Map.empty, json_load = Map.empty\<rparr>
      \<lparr>config_file = ''conf.d'', config_type = ''json'', deprecated_features_file = ''d.json'',
        deprecated_features = PNone, config_data = PNone\<rparr>))
   \<and> path_exists
      \<lparr>files = [''conf.d'' \<mapsto> Unreadable], yaml_safe_load = Map.empty, json_load = Map.empty\<rparr>
      ''conf.d''
   \<and> ''json'' \<in> {''yaml'', ''json''}
   \<and> \<not> parse_fails
      \<lparr>files = [''conf.d'' \<mapsto> Unreadable], yaml_safe_load = Map.empty, json_load = Map.empty\<rparr>
      \<lparr>config_file = ''conf.d'', config_type = ''json'', deprecated_features_file = ''d.json'',
        deprecated_features = PNone, config_data = PNone\<rparr>"
  by (simp add: load_config_data_def path_exists_def parse_fails_def reports_failure_def)

text \<open>
  Claim C6, amended. The configuration loader reports a failure exactly when the file is
  absent, or is there and cannot be opened or read, or the type is neither \<^verbatim>\<open>yaml\<close> nor
  \<^verbatim>\<open>json\<close>, or the text does not parse as that type. On every failure it returns \<^verbatim>\<open>None\<close>;
  it never raises. Otherwise it returns the parsed tree and logs nothing. The return value
  alone does not tell a failure from a document that parses to \<^verbatim>\<open>null\<close>. The world is an
  argument that is not returned, so the only effect is the read.
\<close>

theorem config_loader_failures:
  "(reports_failure (snd (load_config_data w self)) \<longleftrightarrow>
      \<not> path_exists w (config_file self) \<or> unreadable w self
      \<or> config_type self \<notin> {''yaml'', ''json''} \<or> parse_fails w self)
   \<and> (reports_failure (snd (load_config_data w self))
        \<longrightarrow> fst (load_config_data w self) = PNone)
   \<and> (\<not> reports_failure (snd (load_config_data w self))
        \<longrightarrow> (\<exists>text tree. files w (config_file self) = Some (Content text)
               \<and> parse_as w (config_type self) text = Some tree
               \<and> load_config_data w self = (tree, [Call LoadConfig])))"
  by (auto simp: load_config_data_def path_exists_def unreadable_def parse_fails_def parse_as_def
      reports_failure_def split: option.splits fentry.splits)

text \<open>A YAML file that loads, and the same file declared with a type that is not supported.\<close>

theorem config_loader_failures_witness:
  "\<not> reports_failure (snd (load_config_data
      \<lparr>files = [''c.yaml'' \<mapsto> Content ''a: 1''],
        yaml_safe_load = [''a: 1'' \<mapsto> PDict [(KStr ''a'', PInt 1)]], json_load = Map.empty\<rparr>
      \<lparr>config_file = ''c.yaml'', config_type = ''yaml'', deprecated_features_file = ''d.json'',
        deprecated_features = PNone, config_data = PNone\<rparr>))
   \<and> load_config_data
      \<lparr>files = [''c.yaml'' \<mapsto> Content ''a: 1''],
        yaml_safe_load = [''a: 1'' \<mapsto> PDict [(KStr ''a'', PInt 1)]], json_load = Map.empty\<rparr>
      \<lparr>config_file = ''c.yaml'', config_type = ''yaml'', deprecated_features_file = ''d.json'',
        deprecated_features = PNone, config_data = PNone\<rparr>
     = (PDict [(KStr ''a'', PInt 1)], [Call LoadConfig])
   \<and> reports_failure (snd (load_config_data
      \<lparr>files = [''c.yaml'' \<mapsto> Content ''a: 1''],
        yaml_safe_load = [''a: 1'' \<mapsto> PDict [(KStr ''a'', PInt 1)]], json_load = Map.empty\<rparr>
      \<lparr>config_file = ''c.yaml'', config_type = ''toml'', deprecated_features_file = ''d.json'',
        deprecated_features = PNone, config_data = PNone\<rparr>))"
  using config_loader_failures [of
      "\<lparr>files = [''c.yaml'' \<mapsto> Content ''a: 1''],
        yaml_safe_load = [''a: 1'' \<mapsto> PDict [(KStr ''a'', PInt 1)]], json_load = Map.empty\<rparr>"
      "\<lparr>config_file = ''c.yaml'', config_type = ''yaml'', deprecated_features_file = ''d.json'',
        deprecated_features = PNone, config_data = PNone\<rparr>"]
    config_loader_failures [of
      "\<lparr>files = [''c.yaml'' \<mapsto> Content ''a: 1''],
        yaml_safe_load = [''a: 1'' \<mapsto> PDict [(KStr ''a'', PInt 1)]], json_load = Map.empty\<rparr>"
      "\<lparr>config_file = ''c.yaml'', config_type = ''toml'', deprecated_features_file = ''d.json'',
        deprecated_features = PNone, config_data = PNone\<rparr>"]
  by (simp add: path_exists_def unreadable_def parse_fails_def parse_as_def)

text \<open>
  Claim C2 at a configuration file whose text does not parse, next to a table that loads:
  the error is logged, the matcher is not entered and \<^verbatim>\<open>run\<close> returns the empty list, but
  \<^verbatim>\<open>main\<close> then calls \<^verbatim>\<open>sys.exit(0)\<close>, the exit status of the clean scan shown second.
\<close>

theorem parse_failure_exits_zero:
  \<open>main \<lparr>files = [''c.json'' \<mapsto> Content ''{'', ''d.json'' \<mapsto> Content ''{"old": null}''],
          yaml_safe_load = Map.empty,
          json_load = [''{"x": 1}'' \<mapsto> PDict [(KStr ''x'', PInt 1)],
                       ''{"old": null}'' \<mapsto> PDict [(KStr ''old'', PNone)]]\<rparr>
        \<lparr>arg_config_file = ''c.json'', arg_config_type = ''json'',
          arg_deprecated_features_file = ''d.json''\<rparr> =
     (Inr 0, [Call LoadTable, Call LoadConfig, ErrLoadingConfig, ErrFailedToLoad])
   \<and> main \<lparr>files = [''c.json'' \<mapsto> Content ''{"x": 1}'', ''d.json'' \<mapsto> Content ''{"old": null}''],
          yaml_safe_load = Map.empty,
          json_load = [''{"x": 1}'' \<mapsto> PDict [(KStr ''x'', PInt 1)],
                       ''{"old": null}'' \<mapsto> PDict [(KStr ''old'', PNone)]]\<rparr>
        \<lparr>arg_config_file = ''c.json'', arg_config_type = ''json'',
          arg_deprecated_features_file = ''d.json''\<rparr> =
     (Inr 0, [Call LoadTable, Call LoadConfig, Call Matcher, InfoNoneFound])\<close>
  by (simp add: main_def path_exists_def init_def load_deprecated_features_def
      load_config_data_def lower_def lower_char_def run_def dict_loop.simps(2))

text \<open>
  Claim C3, as stated, fails: with both files present, the number 5 as the table and a
  configuration that has a mapping key, the matcher raises \<^verbatim>\<open>TypeError\<close>, which nothing
  catches, and \<^verbatim>\<open>main\<close> reaches none of its \<^verbatim>\<open>sys.exit\<close> calls.
\<close>

theorem non_mapping_table_no_exit_code:
  \<open>path_exists
      \<lparr>files = [''c.json'' \<mapsto> Content ''{"a": 1}'', ''d.json'' \<mapsto> Content ''5''],
        yaml_safe_load = Map.empty,
        json_load = [''{"a": 1}'' \<mapsto> PDict [(KStr ''a'', PInt 1)], ''5'' \<mapsto> PInt 5]\<rparr> ''c.json''
   \<and> path_exists
      \<lparr>files = [''c.json'' \<mapsto> Content ''{"a": 1}'', ''d.json'' \<mapsto> Content ''5''],
        yaml_safe_load = Map.empty,
        json_load = [''{"a": 1}'' \<mapsto> PDict [(KStr ''a'', PInt 1)], ''5'' \<mapsto> PInt 5]\<rparr> ''d.json''
   \<and> fst (main
      \<lparr>files = [''c.json'' \<mapsto> Content ''{"a": 1}'', ''d.json'' \<mapsto> Content ''5''],
        yaml_safe_load = Map.empty,
        json_load = [''{"a": 1}'' \<mapsto> PDict [(KStr ''a'', PInt 1)], ''5'' \<mapsto> PInt 5]\<rparr>
      \<lparr>arg_config_file = ''c.json'', arg_config_type = ''json'',
        arg_deprecated_features_file = ''d.json''\<rparr>) = Inl TypeError\<close>
  by (simp add: main_def path_exists_def init_def load_deprecated_features_def
      load_config_data_def lower_def lower_char_def run_def dict_loop.simps(2))

text \<open>
  Claim C3, amended. If one of the two files is missing, \<^verbatim>\<open>main\<close> exits with 1 before any
  loader or the matcher is entered. Otherwise \<^verbatim>\<open>run\<close> gives what the matcher gives for
  the loaded table and configuration, or the empty list without a scan when one of the
  two is falsy. Whenever that is a list, \<^verbatim>\<open>main\<close> exits with 2 if the list is not empty and
  with 0 if it is; that is so in particular when the loaded table is a mapping or is falsy,
  or the loaded configuration is falsy, and the list is then the specification's walk, or
  empty without a scan. In the remaining case, if the scan raises, the exception leaves
  \<^verbatim>\<open>main\<close>.
\<close>

theorem exit_codes:
  "(\<not> path_exists w (arg_config_file a) \<or> \<not> path_exists w (arg_deprecated_features_file a)
      \<longrightarrow> fst (main w a) = Inr 1 \<and> \<not> load_attempted (snd (main w a))
          \<and> \<not> matcher_invoked (snd (main w a)))
   \<and> (path_exists w (arg_config_file a) \<and> path_exists w (arg_deprecated_features_file a)
       \<and> init w (arg_config_file a) (arg_config_type a) (arg_deprecated_features_file a)
           = (self, log)
      \<longrightarrow> fst (run self) =
            (if truthy (config_data self) \<and> truthy (deprecated_features self)
             then find_deprecated_features (deprecated_features self) (config_data self)
                    (KStr [])
             else Inr [])
          \<and> (\<forall>found. fst (run self) = Inr found
                \<longrightarrow> fst (main w a) = Inr (if found \<noteq> [] then 2 else 0))
          \<and> (is_mapping (deprecated_features self) \<or> \<not> truthy (deprecated_features self)
            \<or> \<not> truthy (config_data self)
           \<longrightarrow> (\<exists>found. fst (run self) = Inr found
                 \<and> found =
                     (if truthy (config_data self) \<and> truthy (deprecated_features self)
                      then findDeprecated (table_of (deprecated_features self))
                             (config_data self) (KStr [])
                      else [])
                 \<and> fst (main w a) = Inr (if found \<noteq> [] then 2 else 0)))
          \<and> (\<forall>e. fst (run self) = Inl e \<longrightarrow> fst (main w a) = Inl e))"
proof (intro conjI impI allI)
  assume "\<not> path_exists w (arg_config_file a) \<or> \<not> path_exists w (arg_deprecated_features_file a)"
  then show "fst (main w a) = Inr 1" "\<not> load_attempted (snd (main w a))"
    "\<not> matcher_invoked (snd (main w a))"
    using main_file_missing [of w a] by simp_all
next
  assume ex: "path_exists w (arg_config_file a) \<and> path_exists w (arg_deprecated_features_file a)
       \<and> init w (arg_config_file a) (arg_config_type a) (arg_deprecated_features_file a)
           = (self, log)"
  then have main: "main w a =
           (case fst (run self) of
              Inl e \<Rightarrow> (Inl e, log @ snd (run self))
            | Inr found \<Rightarrow> (Inr (if found \<noteq> [] then 2 else 0), log @ snd (run self)))"
    using main_both_exist [of w a self log] by simp
  show "fst (run self) =
            (if truthy (config_data self) \<and> truthy (deprecated_features self)
             then find_deprecated_features (deprecated_features self) (config_data self)
                    (KStr [])
             else Inr [])"
    by (auto simp: run_def split: sum.split)
  show "fst (main w a) = Inr (if found \<noteq> [] then 2 else 0)"
    if "fst (run self) = Inr found" for found
    using that by (simp add: main)
  show "\<exists>found. fst (run self) = Inr found
          \<and> found =
              (if truthy (config_data self) \<and> truthy (deprecated_features self)
               then findDeprecated (table_of (deprecated_features self)) (config_data self)
                      (KStr [])
               else [])
          \<and> fst (main w a) = Inr (if found \<noteq> [] then 2 else 0)"
    if "is_mapping (deprecated_features self) \<or> \<not> truthy (deprecated_features self)
        \<or> \<not> truthy (config_data self)"
    using run_without_exception [OF that] by (simp add: main)
  show "fst (main w a) = Inl e" if "fst (run self) = Inl e" for e
    using that by (simp add: main)
qed

text \<open>
  The first two scenarios of the specification, exit codes 2 and 0; a missing
  configuration file, exit code 1; and an array as the table that holds none of the keys,
  where the scan returns the empty list and the exit code is 0.
\<close>

theorem exit_codes_witness:
  \<open>fst (main
      \<lparr>files = [''c.json'' \<mapsto> Content ''{"api_version": "v1", "settings": {"old_setting": 123}}'',
                 ''x.json'' \<mapsto> Content ''{"x": 1}'',
                 ''d.json'' \<mapsto> Content ''{"api_version": null, "old_setting": null}'',
                 ''l.json'' \<mapsto> Content ''["y"]''],
        yaml_safe_load = Map.empty,
        json_load =
          [''{"api_version": "v1", "settings": {"old_setting": 123}}'' \<mapsto>
             PDict [(KStr ''api_version'', PStr ''v1''),
                    (KStr ''settings'', PDict [(KStr ''old_setting'', PInt 123)])],
           ''{"x": 1}'' \<mapsto> PDict [(KStr ''x'', PInt 1)],
           ''{"api_version": null, "old_setting": null}'' \<mapsto>
             PDict [(KStr ''api_version'', PNone), (KStr ''old_setting'', PNone)],
           ''["y"]'' \<mapsto> PList [PStr ''y'']]\<rparr>
      \<lparr>arg_config_file = ''c.json'', arg_config_type = ''json'',
        arg_deprecated_features_file = ''d.json''\<rparr>) = Inr 2
   \<and> fst (main
      \<lparr>files = [''c.json'' \<mapsto> Content ''{"api_version": "v1", "settings": {"old_setting": 123}}'',
                 ''x.json'' \<mapsto> Content ''{"x": 1}'',
                 ''d.json'' \<mapsto> Content ''{"api_version": null, "old_setting": null}'',
                 ''l.json'' \<mapsto> Content ''["y"]''],
        yaml_safe_load = Map.empty,
        json_load =
          [''{"api_version": "v1", "settings": {"old_setting": 123}}'' \<mapsto>
             PDict [(KStr ''api_version'', PStr ''v1''),
                    (KStr ''settings'', PDict [(KStr ''old_setting'', PInt 123)])],
           ''{"x": 1}'' \<mapsto> PDict [(KStr ''x'', PInt 1)],
           ''{"api_version": null, "old_setting": null}'' \<mapsto>
             PDict [(KStr ''api_version'', PNone), (KStr ''old_setting'', PNone)],
           ''["y"]'' \<mapsto> PList [PStr ''y'']]\<rparr>
      \<lparr>arg_config_file = ''x.json'', arg_config_type = ''json'',
        arg_deprecated_features_file = ''d.json''\<rparr>) = Inr 0
   \<and> fst (main
      \<lparr>files = [''c.json'' \<mapsto> Content ''{"api_version": "v1", "settings": {"old_setting": 123}}'',
                 ''x.json'' \<mapsto> Content ''{"x": 1}'',
                 ''d.json'' \<mapsto> Content ''{"api_version": null, "old_setting": null}'',
                 ''l.json'' \<mapsto> Content ''["y"]''],
        yaml_safe_load = Map.empty,
        json_load =
          [''{"api_version": "v1", "settings": {"old_setting": 123}}'' \<mapsto>
             PDict [(KStr ''api_version'', PStr ''v1''),
                    (KStr ''settings'', PDict [(KStr ''old_setting'', PInt 123)])],
           ''{"x": 1}'' \<mapsto> PDict [(KStr ''x'', PInt 1)],
           ''{"api_version": null, "old_setting": null}'' \<mapsto>
             PDict [(KStr ''api_version'', PNone), (KStr ''old_setting'', PNone)],
           ''["y"]'' \<mapsto> PList [PStr ''y'']]\<rparr>
      \<lparr>arg_config_file = ''x.json'', arg_config_type = ''json'',
        arg_deprecated_features_file = ''l.json''\<rparr>) = Inr 0
   \<and> fst (main
      \<lparr>files = [''c.json'' \<mapsto> Content ''{"api_version": "v1", "settings": {"old_setting": 123}}'',
                 ''x.json'' \<mapsto> Content ''{"x": 1}'',
                 ''d.json'' \<mapsto> Content ''{"api_version": null, "old_setting": null}'',
                 ''l.json'' \<mapsto> Content ''["y"]''],
        yaml_safe_load = Map.empty,
        json_load =
          [''{"api_version": "v1", "settings": {"old_setting": 123}}'' \<mapsto>
             PDict [(KStr ''api_version'', PStr ''v1''),
                    (KStr ''settings'', PDict [(KStr ''old_setting'', PInt 123)])],
           ''{"x": 1}'' \<mapsto> PDict [(KStr ''x'', PInt 1)],
           ''{"api_version": null, "old_setting": null}'' \<mapsto>
             PDict [(KStr ''api_version'', PNone), (KStr ''old_setting'', PNone)],
           ''["y"]'' \<mapsto> PList [PStr ''y'']]\<rparr>
      \<lparr>arg_config_file = ''missing.json'', arg_config_type = ''json'',
        arg_deprecated_features_file = ''d.json''\<rparr>) = Inr 1\<close>
proof -
  let ?w = \<open>\<lparr>files = [''c.json'' \<mapsto> Content ''{"api_version": "v1", "settings": {"old_setting": 123}}'',
                 ''x.json'' \<mapsto> Content ''{"x": 1}'',
                 ''d.json'' \<mapsto> Content ''{"api_version": null, "old_setting": null}'',
                 ''l.json'' \<mapsto> Content ''["y"]''],
        yaml_safe_load = Map.empty,
        json_load =
          [''{"api_version": "v1", "settings": {"old_setting": 123}}'' \<mapsto>
             PDict [(KStr ''api_version'', PStr ''v1''),
                    (KStr ''settings'', PDict [(KStr ''old_setting'', PInt 123)])],
           ''{"x": 1}'' \<mapsto> PDict [(KStr ''x'', PInt 1)],
           ''{"api_version": null, "old_setting": null}'' \<mapsto>
             PDict [(KStr ''api_version'', PNone), (KStr ''old_setting'', PNone)],
           ''["y"]'' \<mapsto> PList [PStr ''y'']]\<rparr>\<close>
  let ?a = "\<lparr>arg_config_file = ''c.json'', arg_config_type = ''json'',
             arg_deprecated_features_file = ''d.json''\<rparr>"
  let ?b = "\<lparr>arg_config_file = ''x.json'', arg_config_type = ''json'',
             arg_deprecated_features_file = ''d.json''\<rparr>"
  let ?c = "\<lparr>arg_config_file = ''x.json'', arg_config_type = ''json'',
             arg_deprecated_features_file = ''l.json''\<rparr>"
  let ?m = "\<lparr>arg_config_file = ''missing.json'', arg_config_type = ''json'',
             arg_deprecated_features_file = ''d.json''\<rparr>"
  let ?table = "PDict [(KStr ''api_version'', PNone), (KStr ''old_setting'', PNone)]"
  let ?sa = "\<lparr>config_file = ''c.json'', config_type = ''json'',
              deprecated_features_file = ''d.json'', deprecated_features = ?table,
              config_data = PDict [(KStr ''api_version'', PStr ''v1''),
                                   (KStr ''settings'', PDict [(KStr ''old_setting'', PInt 123)])]\<rparr>"
  let ?sb = "\<lparr>config_file = ''x.json'', config_type = ''json'',
              deprecated_features_file = ''d.json'', deprecated_features = ?table,
              config_data = PDict [(KStr ''x'', PInt 1)]\<rparr>"
  let ?sc = "\<lparr>config_file = ''x.json'', config_type = ''json'',
              deprecated_features_file = ''l.json'', deprecated_features = PList [PStr ''y''],
              config_data = PDict [(KStr ''x'', PInt 1)]\<rparr>"
  let ?log = "[Call LoadTable, Call LoadConfig]"
  have ia: "init ?w (arg_config_file ?a) (arg_config_type ?a) (arg_deprecated_features_file ?a)
             = (?sa, ?log)"
    by (simp add: init_def load_deprecated_features_def load_config_data_def lower_def
        lower_char_def)
  have ib: "init ?w (arg_config_file ?b) (arg_config_type ?b) (arg_deprecated_features_file ?b)
             = (?sb, ?log)"
    by (simp add: init_def load_deprecated_features_def load_config_data_def lower_def
        lower_char_def)
  have ic: "init ?w (arg_config_file ?c) (arg_config_type ?c) (arg_deprecated_features_file ?c)
             = (?sc, ?log)"
    by (simp add: init_def load_deprecated_features_def load_config_data_def lower_def
        lower_char_def)
  have ea: "path_exists ?w (arg_config_file ?a) \<and> path_exists ?w (arg_deprecated_features_file ?a)"
    and eb: "path_exists ?w (arg_config_file ?b) \<and> path_exists ?w (arg_deprecated_features_file ?b)"
    and ec: "path_exists ?w (arg_config_file ?c) \<and> path_exists ?w (arg_deprecated_features_file ?c)"
    and m: "\<not> path_exists ?w (arg_config_file ?m)"
    by (simp_all add: path_exists_def)
  have ra: "fst (main ?w ?a) = Inr 2"
    using exit_codes [of ?w ?a ?sa ?log] ia ea by (simp add: childPath_def)
  have rb: "fst (main ?w ?b) = Inr 0"
    using exit_codes [of ?w ?b ?sb ?log] ib eb by (simp add: childPath_def)
  have rc: "fst (main ?w ?c) = Inr 0"
    using exit_codes [of ?w ?c ?sc ?log] ic ec
    by (simp add: dict_loop.simps(2) py_eq_def)
  have rm: "fst (main ?w ?m) = Inr 1"
    using exit_codes [of ?w ?m] m by simp
  from ra rb rc rm show ?thesis by (intro conjI)
qed

text \<open>
  Claim C10. When both loaders log no error and the loaded configuration is \<^verbatim>\<open>None\<close>,
  \<^verbatim>\<open>False\<close>, zero, the empty string, the empty mapping or the empty sequence, or the
  loaded table is the empty mapping, \<^verbatim>\<open>run\<close> logs the load failure and returns the empty
  list, the matcher is not entered, and \<^verbatim>\<open>main\<close> exits with 0.
\<close>

theorem falsy_load_takes_failure_branch:
  assumes "init w (arg_config_file a) (arg_config_type a) (arg_deprecated_features_file a)
             = (self, log)"
    and "\<not> reports_failure log"
    and "config_data self \<in> {PNone, PBool False, PInt 0, PFloat (Finite 0 e), PStr [],
                              PDict [], PList []}
         \<or> deprecated_features self = PDict []"
  shows "run self = (Inr [], [ErrFailedToLoad])
         \<and> main w a = (Inr 0, log @ [ErrFailedToLoad])
         \<and> \<not> matcher_invoked (snd (main w a))"
proof -
  have run: "run self = (Inr [], [ErrFailedToLoad])"
    using assms(3) by (auto simp: run_def)
  have ex: "path_exists w (arg_config_file a) \<and> path_exists w (arg_deprecated_features_file a)"
    using assms(1,2) by (rule init_silent)
  then have main: "main w a = (Inr 0, log @ [ErrFailedToLoad])"
    using main_both_exist [OF _ _ assms(1)] run by simp
  have "\<not> matcher_invoked (snd (main w a))"
    using matcher_not_in_init [OF assms(1)] by (simp add: main matcher_invoked_def)
  with run main show ?thesis by simp
qed

text \<open>A configuration file holding the empty JSON object.\<close>

theorem falsy_load_takes_failure_branch_witness:
  \<open>init \<lparr>files = [''c.json'' \<mapsto> Content ''{}'', ''d.json'' \<mapsto> Content ''{"old": null}''],
          yaml_safe_load = Map.empty,
          json_load = [''{}'' \<mapsto> PDict [], ''{"old": null}'' \<mapsto> PDict [(KStr ''old'', PNone)]]\<rparr>
        ''c.json'' ''json'' ''d.json'' =
     (\<lparr>config_file = ''c.json'', config_type = ''json'', deprecated_features_file = ''d.json'',
       deprecated_features = PDict [(KStr ''old'', PNone)], config_data = PDict []\<rparr>,
      [Call LoadTable, Call LoadConfig])
   \<and> \<not> reports_failure [Call LoadTable, Call LoadConfig]
   \<and> main \<lparr>files = [''c.json'' \<mapsto> Content ''{}'', ''d.json'' \<mapsto> Content ''{"old": null}''],
          yaml_safe_load = Map.empty,
          json_load = [''{}'' \<mapsto> PDict [], ''{"old": null}'' \<mapsto> PDict [(KStr ''old'', PNone)]]\<rparr>
        \<lparr>arg_config_file = ''c.json'', arg_config_type = ''json'',
          arg_deprecated_features_file = ''d.json''\<rparr> =
     (Inr 0, [Call LoadTable, Call LoadConfig, ErrFailedToLoad])\<close>
proof -
  let ?w = \<open>\<lparr>files = [''c.json'' \<mapsto> Content ''{}'', ''d.json'' \<mapsto> Content ''{"old": null}''],
          yaml_safe_load = Map.empty,
          json_load = [''{}'' \<mapsto> PDict [], ''{"old": null}'' \<mapsto> PDict [(KStr ''old'', PNone)]]\<rparr>\<close>
  let ?a = "\<lparr>arg_config_file = ''c.json'', arg_config_type = ''json'',
             arg_deprecated_features_file = ''d.json''\<rparr>"
  let ?self = "\<lparr>config_file = ''c.json'', config_type = ''json'',
                deprecated_features_file = ''d.json'',
                deprecated_features = PDict [(KStr ''old'', PNone)], config_data = PDict []\<rparr>"
  have i: "init ?w (arg_config_file ?a) (arg_config_type ?a) (arg_deprecated_features_file ?a)
             = (?self, [Call LoadTable, Call LoadConfig])"
    by (simp add: init_def load_deprecated_features_def load_config_data_def lower_def
        lower_char_def)
  have q: "\<not> reports_failure [Call LoadTable, Call LoadConfig]"
    by (simp add: reports_failure_def)
  have f: "config_data ?self \<in> {PNone, PBool False, PInt 0, PFloat (Finite 0 0), PStr [],
                                 PDict [], PList []}
           \<or> deprecated_features ?self = PDict []"
    by simp
  show ?thesis
    using falsy_load_takes_failure_branch [OF i q f] i q by simp
qed

end
